theory Spec2Isabelle
  imports Main "HOL-Library.Word"
begin

section \<open>The guardian agent (agent.go): data model\<close>

text \<open>
  The agent talks to collaborators that live outside \<^verbatim>\<open>agent.go\<close>: the policy and its UI,
  \<^verbatim>\<open>known_hosts\<close>, the SSH and protobuf libraries, the stream multiplexer and the connection
  itself. Each of them is a field of the record \<open>env\<close> below (what the call returns), or a
  scripted result in the \<open>world\<close> that the functions thread through. Everything that
  \<^verbatim>\<open>agent.go\<close> itself decides is written out: every early return, every ignored error and the
  one index that can panic.
\<close>

type_synonym bytes = "8 word list"

subsection \<open>Errors\<close>

text \<open>
  Go compares \<^verbatim>\<open>err == io.EOF\<close> by identity, so the two sentinel errors are constructors of
  their own; every other error is known by its text.
\<close>

datatype error = io_EOF | io_ErrClosedPipe | errorString string

fun Error :: "error \<Rightarrow> string" where
  "Error io_EOF = ''EOF''"
| "Error io_ErrClosedPipe = ''io: read/write on closed pipe''"
| "Error (errorString s) = s"

text \<open>\<^verbatim>\<open>fmt.Errorf(prefix + "%s", err)\<close>\<close>

definition Errorf :: "string \<Rightarrow> error \<Rightarrow> error" where
  "Errorf prefix err = errorString (prefix @ Error err)"

text \<open>A call either returns or panics (Go's run-time panic unwinds every caller in this file).\<close>

datatype 'a outcome = Panic string | Return 'a

subsection \<open>Messages\<close>

datatype MsgNum =
    MsgNum_AGENT_FORWARDING_NOTICE
  | MsgNum_EXECUTION_REQUEST
  | MsgNum_EXECUTION_APPROVED
  | MsgNum_EXECUTION_DENIED
  | MsgNum_CREDENTIAL_REQUEST
  | MsgNum_CREDENTIAL_RESPONSE
  | MsgNum_HANDOFF_COMPLETE
  | MsgNum_HANDOFF_FAILED
  | MsgNum_AGENTC_EXTENSION
  | MsgNum_AGENT_SUCCESS
  | MsgNum_AGENT_FAILURE
  | MsgNum_unrecognized "8 word"  \<comment> \<open>a wire number that is none of the declared constants\<close>

record Scope =
  ClientName :: string
  ClientHostname :: string
  ClientPort :: "32 word"
  ServiceHostname :: string
  ServiceUsername :: string

record Challenge =
  ServerPublicKeys :: "bytes list"

text \<open>\<^verbatim>\<open>req.Challenge\<close> is a pointer: \<open>None\<close> is Go's \<^verbatim>\<open>nil\<close>.\<close>

record CredentialRequest =
  req_Op :: bytes
  req_Challenge :: "Challenge option"

record Credential =
  cred_Op :: bytes
  cred_Challenge :: "Challenge option"
  SignerNonce :: bytes
  SignatureKey :: bytes
  Signature :: bytes
  SignatureFormat :: string

datatype CredentialResponse_Status = CredentialResponse_APPROVED | CredentialResponse_DENIED

record CredentialResponse =
  Status :: CredentialResponse_Status
  Credential :: "Credential option"

record AgentForwardingNoticeMsg =
  ReadableName :: string
  Host :: string
  Port :: "32 word"

record ExecutionRequestMessage =
  User :: string
  Server :: string
  Command :: string

record AgentCExtensionMsg =
  ExtensionType :: string

datatype ssh_message =
    HandoffFailedMessage string       \<comment> \<open>\<^verbatim>\<open>Msg\<close>\<close>
  | HandoffCompleteMessage "32 word"  \<comment> \<open>\<^verbatim>\<open>NextTransportByte\<close>\<close>
  | ExecutionDeniedMessage string     \<comment> \<open>\<^verbatim>\<open>Reason\<close>\<close>

text \<open>
  What is handed to \<^verbatim>\<open>WriteControlPacket\<close>: the serialisations stay symbolic, so that a
  written packet can be read back as the message it carries.
\<close>

datatype payload =
    empty_payload                     \<comment> \<open>\<^verbatim>\<open>[]byte{}\<close>\<close>
  | ssh_Marshal ssh_message           \<comment> \<open>\<^verbatim>\<open>ssh.Marshal(msg)\<close>\<close>
  | proto_bytes CredentialResponse    \<comment> \<open>the bytes \<^verbatim>\<open>proto.Marshal(resp)\<close> returned\<close>

subsection \<open>Collaborators\<close>

datatype PublicKey = PublicKey string bytes

record Sig =
  Format :: string
  Blob :: bytes

record Signer =
  signer_PublicKey :: bytes            \<comment> \<open>\<^verbatim>\<open>signer.PublicKey().Marshal()\<close>\<close>
  signer_Sign :: "bytes \<Rightarrow> error + Sig"  \<comment> \<open>\<^verbatim>\<open>signer.Sign(rand.Reader, data)\<close>\<close>

record ClientConfig =
  cfg_User :: string
  HostKeyAlgorithms :: "string list"

datatype Filter = NewFilter string Scope

text \<open>
  A proxy that \<^verbatim>\<open>ssh.NewProxyConn\<close> has set up, seen from \<^verbatim>\<open>proxySSH\<close>: the error its
  \<^verbatim>\<open>Run\<close> delivers on the \<^verbatim>\<open>done\<close> channel and the two counters read afterwards.
  Both counters are declared outside \<^verbatim>\<open>agent.go\<close>; they are taken as the integers they
  return (Go \<^verbatim>\<open>int\<close>s, which \<^verbatim>\<open>proxySSH\<close> subtracts and converts with \<^verbatim>\<open>uint32\<close>).
\<close>

record ProxyConn =
  run_err :: "error option"         \<comment> \<open>\<^verbatim>\<open>err = <-done\<close>\<close>
  BytesRead :: int             \<comment> \<open>\<^verbatim>\<open>meteredConnToServer.BytesRead()\<close>\<close>
  BufferedFromServer :: int    \<comment> \<open>\<^verbatim>\<open>proxy.BufferedFromServer()\<close>\<close>

record env =
  knownhosts_New :: "error + (string \<Rightarrow> PublicKey \<Rightarrow> error option)"
  ParsePublicKey :: "bytes \<Rightarrow> error + PublicKey"
  RequestApproval :: "Scope \<Rightarrow> string \<Rightarrow> error option"
  RequestCredentialApproval :: "Scope \<Rightarrow> CredentialRequest \<Rightarrow> error option"
  getSigners :: "Signer list"
  rand_ReadFull :: "nat \<Rightarrow> error + bytes"
  proto_Marshal :: "Credential \<Rightarrow> error + bytes"
  Unmarshal_notice :: "bytes \<Rightarrow> error + AgentForwardingNoticeMsg"
  Unmarshal_execReq :: "bytes \<Rightarrow> error + ExecutionRequestMessage"
  Unmarshal_credReq :: "bytes \<Rightarrow> error + CredentialRequest"
  Unmarshal_extension :: "bytes \<Rightarrow> AgentCExtensionMsg"
  AgentGuardExtensionType :: string
  yamux_Server :: "error option"
  Accept :: "nat \<Rightarrow> error option"
  OrderHostKeyAlgs :: "string \<Rightarrow> error + string list"
  NewProxyConn :: "string \<Rightarrow> ClientConfig \<Rightarrow> Filter \<Rightarrow> error + ProxyConn"
  fmt_d :: "MsgNum \<Rightarrow> string"
  fmt_v :: "CredentialResponse \<Rightarrow> string"
  CredentialRequestToString :: "Scope \<Rightarrow> CredentialRequest \<Rightarrow> string"

subsection \<open>Effects\<close>

datatype stream = Conn | Control | SshData | Transport | Ymux

datatype event =
    Wrote stream MsgNum payload   \<comment> \<open>a call of \<^verbatim>\<open>WriteControlPacket\<close>\<close>
  | Inform string                 \<comment> \<open>\<^verbatim>\<open>agent.policy.UI.Inform\<close>\<close>
  | RandRead nat                  \<comment> \<open>\<^verbatim>\<open>io.ReadFull(rand.Reader, nonce)\<close>\<close>
  | Signed bytes bytes            \<comment> \<open>\<^verbatim>\<open>signer.Sign\<close>: the signer's key, the bytes signed\<close>
  | Closed stream                 \<comment> \<open>\<^verbatim>\<open>Close()\<close>\<close>

text \<open>
  The world: the events so far, oldest first, and the results the connection will give to
  the next calls of \<^verbatim>\<open>WriteControlPacket\<close> (a write past the end of the script succeeds).
\<close>

record world =
  events :: "event list"
  wscript :: "error option list"

definition emit :: "event \<Rightarrow> world \<Rightarrow> world" where
  "emit e w = w\<lparr>events := events w @ [e]\<rparr>"

text \<open>
  Modelled from the spec: \<^verbatim>\<open>WriteControlPacket\<close> is declared outside \<^verbatim>\<open>agent.go\<close>; it frames
  \<open>{msg_num, payload}\<close> onto the stream and returns the error of the write, if any.
\<close>

definition WriteControlPacket :: "stream \<Rightarrow> MsgNum \<Rightarrow> payload \<Rightarrow> world \<Rightarrow> error option \<times> world" where
  "WriteControlPacket s msgNum p w =
     (case wscript w of
        [] \<Rightarrow> (None, emit (Wrote s msgNum p) w)
      | r # rs \<Rightarrow> (r, (emit (Wrote s msgNum p) w)\<lparr>wscript := rs\<rparr>))"

section \<open>Challenge verification\<close>

text \<open>
  \<^verbatim>\<open>strconv.FormatUint(n, 10)\<close> and \<^verbatim>\<open>net.JoinHostPort\<close> of Go's standard library.
  \<^verbatim>\<open>JoinHostPort\<close> brackets a host that contains a colon (releases before Go 1.10 also
  bracket one that contains a percent sign); the properties below hold for the address
  whatever its form, they only name it.
\<close>

definition digit :: "nat \<Rightarrow> char" where
  "digit d = ''0123456789'' ! d"

function FormatUint :: "nat \<Rightarrow> string" where
  "FormatUint n = (if n < 10 then [digit n] else FormatUint (n div 10) @ [digit (n mod 10)])"
  by pat_completeness auto
termination
  by (relation "measure id") auto

definition JoinHostPort :: "string \<Rightarrow> string \<Rightarrow> string" where
  "JoinHostPort host port =
     (if CHR '':'' \<in> set host then ''['' @ host @ '']:'' @ port else host @ '':'' @ port)"

definition client_endpoint :: "Scope \<Rightarrow> string" where
  "client_endpoint scope = JoinHostPort (ClientHostname scope) (FormatUint (unat (ClientPort scope)))"

text \<open>\<^verbatim>\<open>challenge.GetServerPublicKeys()\<close>: the getter accepts a nil receiver.\<close>

definition GetServerPublicKeys :: "Challenge option \<Rightarrow> bytes list" where
  "GetServerPublicKeys c = (case c of None \<Rightarrow> [] | Some ch \<Rightarrow> ServerPublicKeys ch)"

text \<open>
  The condition of the loop of \<^verbatim>\<open>checkChallenge\<close>: the candidate parses and the
  \<^verbatim>\<open>known_hosts\<close> callback accepts it for the address (\<^verbatim>\<open>&&\<close> is short-circuit).
\<close>

definition accepts :: "env \<Rightarrow> (string \<Rightarrow> PublicKey \<Rightarrow> error option) \<Rightarrow> string \<Rightarrow> bytes \<Rightarrow> bool" where
  "accepts env kh addr pkBytes =
     (case ParsePublicKey env pkBytes of
        Inl err \<Rightarrow> False
      | Inr pk \<Rightarrow> kh addr pk = None)"

text \<open>The loop: the first accepted candidate, if there is one.\<close>

fun checkChallenge_loop ::
  "env \<Rightarrow> (string \<Rightarrow> PublicKey \<Rightarrow> error option) \<Rightarrow> string \<Rightarrow> bytes list \<Rightarrow> bytes option" where
  "checkChallenge_loop env kh addr [] = None"
| "checkChallenge_loop env kh addr (pkBytes # rest) =
     (if accepts env kh addr pkBytes then Some pkBytes
      else checkChallenge_loop env kh addr rest)"

text \<open>
  \<^verbatim>\<open>checkChallenge\<close> returns its error and leaves the challenge, which it holds by pointer,
  as the second component. (The second \<^verbatim>\<open>if err != nil\<close> of the source cannot be reached.)
\<close>

definition checkChallenge :: "env \<Rightarrow> Scope \<Rightarrow> Challenge option \<Rightarrow> error option \<times> Challenge option" where
  "checkChallenge env scope challenge =
     (case knownhosts_New env of
        Inl err \<Rightarrow> (Some (Errorf ''Failed to get known hosts: '' err), challenge)
      | Inr kh \<Rightarrow>
          (case checkChallenge_loop env kh (client_endpoint scope) (GetServerPublicKeys challenge) of
             Some pkBytes \<Rightarrow>
               (None, map_option (\<lambda>c. c\<lparr>ServerPublicKeys := [pkBytes]\<rparr>) challenge)
           | None \<Rightarrow>
               (Some (errorString ''Could not verify server public key against known_hosts''),
                challenge)))"

section \<open>Credential service\<close>

text \<open>
  \<^verbatim>\<open>proto.Marshal(resp)\<close> on a \<^verbatim>\<open>CredentialResponse\<close>. The protobuf library rejects a
  message for its content only; a response is a status (an enum) and an optional
  \<^verbatim>\<open>Credential\<close>, so marshalling it fails exactly where marshalling the credential it embeds
  fails.
\<close>

definition proto_Marshal_resp :: "env \<Rightarrow> CredentialResponse \<Rightarrow> error option" where
  "proto_Marshal_resp env resp =
     (case Credential resp of
        None \<Rightarrow> None
      | Some cred \<Rightarrow> (case proto_Marshal env cred of Inl err \<Rightarrow> Some err | Inr b \<Rightarrow> None))"

definition writeCredentialResponse ::
  "env \<Rightarrow> stream \<Rightarrow> CredentialResponse \<Rightarrow> world \<Rightarrow> error option \<times> world" where
  "writeCredentialResponse env conn resp w =
     (case proto_Marshal_resp env resp of
        Some err \<Rightarrow>
          (Some (errorString (''Failed to marshal credential response: '' @ Error err @ '', ''
                              @ fmt_v env resp)), w)
      | None \<Rightarrow>
          (case WriteControlPacket conn MsgNum_CREDENTIAL_RESPONSE (proto_bytes resp) w of
             (Some err, w1) \<Rightarrow> (Some (Errorf ''Failed to write credential respoinse: '' err), w1)
           | (None, w1) \<Rightarrow> (None, w1)))"

text \<open>
  \<^verbatim>\<open>signCredential\<close> fills the credential it holds by pointer; the model returns it beside
  the error. \<^verbatim>\<open>signers[0]\<close> is not guarded: on an empty signer list Go panics.
\<close>

definition signCredential ::
  "env \<Rightarrow> Credential \<Rightarrow> world \<Rightarrow> (error option \<times> Credential) outcome \<times> world" where
  "signCredential env cred w =
     (case getSigners env of
        [] \<Rightarrow> (Panic ''runtime error: index out of range [0] with length 0'', w)
      | signer # others \<Rightarrow>
          (let w1 = emit (RandRead 32) w in
           case rand_ReadFull env 32 of
             Inl err \<Rightarrow> (Return (Some err, cred), w1)
           | Inr nonce \<Rightarrow>
               (let cred1 = cred\<lparr>SignerNonce := nonce, SignatureKey := signer_PublicKey signer\<rparr> in
                case proto_Marshal env cred1 of
                  Inl err \<Rightarrow> (Return (Some err, cred1), w1)
                | Inr bytes_to_sign \<Rightarrow>
                    (let w2 = emit (Signed (signer_PublicKey signer) bytes_to_sign) w1 in
                     case signer_Sign signer bytes_to_sign of
                       Inl err \<Rightarrow> (Return (Some err, cred1), w2)
                     | Inr sig \<Rightarrow>
                         (Return (None, cred1\<lparr>Signature := Blob sig,
                                              SignatureFormat := Format sig\<rparr>), w2)))))"

definition DENIED :: CredentialResponse where
  "DENIED = \<lparr>Status = CredentialResponse_DENIED, Credential = None\<rparr>"

definition APPROVED :: "Credential \<Rightarrow> CredentialResponse" where
  "APPROVED cred = \<lparr>Status = CredentialResponse_APPROVED, Credential = Some cred\<rparr>"

text \<open>\<^verbatim>\<open>&Credential{Op: req.GetOp(), Challenge: req.GetChallenge()}\<close>\<close>

definition new_Credential :: "CredentialRequest \<Rightarrow> Credential" where
  "new_Credential req =
     \<lparr>cred_Op = req_Op req, cred_Challenge = req_Challenge req,
      SignerNonce = [], SignatureKey = [], Signature = [], SignatureFormat = []\<rparr>"

text \<open>
  \<^verbatim>\<open>handleCredentialRequest\<close>. The request is held by pointer and \<^verbatim>\<open>checkChallenge\<close>
  rewrites its challenge, so the policy and the credential see the rewritten request; the
  model returns it as the second component, for the caller that reads it afterwards.
\<close>

definition handleCredentialRequest ::
  "env \<Rightarrow> stream \<Rightarrow> Scope \<Rightarrow> CredentialRequest \<Rightarrow> world
     \<Rightarrow> error option outcome \<times> CredentialRequest \<times> world" where
  "handleCredentialRequest env conn scope req w =
     (case checkChallenge env scope (req_Challenge req) of
        (Some err, challenge) \<Rightarrow>
          (Return (Some (Errorf ''request BLOCKED due to invalid challenge: '' err)),
           req\<lparr>req_Challenge := challenge\<rparr>,
           snd (writeCredentialResponse env conn DENIED w))
      | (None, challenge) \<Rightarrow>
          (let req1 = req\<lparr>req_Challenge := challenge\<rparr> in
           case RequestCredentialApproval env scope req1 of
             Some err \<Rightarrow>
               (case writeCredentialResponse env conn DENIED w of
                  (r, w1) \<Rightarrow> (Return r, req1, w1))
           | None \<Rightarrow>
               (case signCredential env (new_Credential req1) w of
                  (Panic msg, w1) \<Rightarrow> (Panic msg, req1, w1)
                | (Return (Some err, cred), w1) \<Rightarrow>
                    (Return (Some (Errorf ''Failed to sign credential: '' err)),
                     req1,
                     snd (writeCredentialResponse env conn DENIED w1))
                | (Return (None, cred), w1) \<Rightarrow>
                    (case writeCredentialResponse env conn (APPROVED cred) w1 of
                       (r, w2) \<Rightarrow> (Return r, req1, w2)))))"

section \<open>SSH proxy and execution requests\<close>

text \<open>
  \<^verbatim>\<open>proxySSH\<close>. \<^verbatim>\<open>uint32(x)\<close> keeps the low 32 bits of the Go \<^verbatim>\<open>int\<close> \<^verbatim>\<open>x\<close>:
  \<open>word_of_int\<close> at width 32.
\<close>

definition proxySSH :: "env \<Rightarrow> Scope \<Rightarrow> stream \<Rightarrow> Filter \<Rightarrow> world \<Rightarrow> error option \<times> world" where
  "proxySSH env scope control fil w =
     (case OrderHostKeyAlgs env (ServiceHostname scope) of
        Inl err \<Rightarrow>
          (Some (Errorf ''Failed to extract host key algorithms from known_hosts: '' err), w)
      | Inr hostKeyAlgs \<Rightarrow>
          (let clientConfig = \<lparr>cfg_User = ServiceUsername scope, HostKeyAlgorithms = hostKeyAlgs\<rparr> in
           case NewProxyConn env (ServiceHostname scope) clientConfig fil of
             Inl err \<Rightarrow> (Some err, w)
           | Inr proxy \<Rightarrow>
               (case run_err proxy of
                  Some err \<Rightarrow>
                    WriteControlPacket control MsgNum_HANDOFF_FAILED
                      (ssh_Marshal (HandoffFailedMessage (Error err))) w
                | None \<Rightarrow>
                    WriteControlPacket control MsgNum_HANDOFF_COMPLETE
                      (ssh_Marshal (HandoffCompleteMessage
                         (word_of_int (BytesRead proxy - BufferedFromServer proxy)))) w)))"

fun closes :: "stream list \<Rightarrow> world \<Rightarrow> world" where
  "closes [] w = w"
| "closes (s # ss) w = closes ss (emit (Closed s) w)"

text \<open>
  \<^verbatim>\<open>handleExecutionRequest\<close>. The deferred \<^verbatim>\<open>Close\<close> calls run last, newest first, on every
  return after their \<^verbatim>\<open>defer\<close>.
\<close>

definition handleExecutionRequest ::
  "env \<Rightarrow> stream \<Rightarrow> Scope \<Rightarrow> string \<Rightarrow> world \<Rightarrow> error option \<times> world" where
  "handleExecutionRequest env conn scope cmd w =
     (case RequestApproval env scope cmd of
        Some err \<Rightarrow>
          (None, snd (WriteControlPacket conn MsgNum_EXECUTION_DENIED
                        (ssh_Marshal (ExecutionDeniedMessage (Error err))) w))
      | None \<Rightarrow>
          (let fil = NewFilter cmd scope;
               w1 = snd (WriteControlPacket conn MsgNum_EXECUTION_APPROVED empty_payload w) in
           case yamux_Server env of
             Some err \<Rightarrow> (Some (Errorf ''Failed to start ymux: '' err), w1)
           | None \<Rightarrow>
               (case Accept env 0 of
                  Some err \<Rightarrow>
                    (Some (Errorf ''Failed to accept control stream: '' err), closes [Ymux] w1)
                | None \<Rightarrow>
                    (case Accept env 1 of
                       Some err \<Rightarrow>
                         (Some (Errorf ''Failed to accept data stream: '' err),
                          closes [Control, Ymux] w1)
                     | None \<Rightarrow>
                         (case Accept env 2 of
                            Some err \<Rightarrow>
                              (Some (Errorf ''Failed to get transport stream: '' err),
                               closes [SshData, Control, Ymux] w1)
                          | None \<Rightarrow>
                              (case proxySSH env scope Control fil w1 of
                                 (err, w2) \<Rightarrow>
                                   (let w3 = closes [Transport, SshData, Control] w2;
                                        w4 = closes [Transport, SshData, Control, Ymux] w3 in
                                    case err of
                                      Some e \<Rightarrow>
                                        (Some (Errorf ''Proxy session finished with error: '' e), w4)
                                    | None \<Rightarrow> (None, w4))))))))"

section \<open>The connection loop\<close>

text \<open>The \<^verbatim>\<open>default\<close> branch of the switch, which the extension branch falls through to.\<close>

definition unrecognized :: "env \<Rightarrow> stream \<Rightarrow> MsgNum \<Rightarrow> world \<Rightarrow> error option outcome \<times> world" where
  "unrecognized env conn msgNum w =
     (Return (Some (errorString (''Unrecognized incoming message: '' @ fmt_d env msgNum))),
      snd (WriteControlPacket conn MsgNum_AGENT_FAILURE empty_payload w))"

text \<open>
  The \<^verbatim>\<open>for\<close> loop of \<^verbatim>\<open>HandleConnection\<close>. What the connection delivers is given as the
  packets that successive calls of \<^verbatim>\<open>ReadControlPacket\<close> return and the error \<open>final\<close> that
  the call after the last packet returns. (\<^verbatim>\<open>log.Printf\<close> is left out.)
\<close>

fun HandleConnection_loop ::
  "env \<Rightarrow> stream \<Rightarrow> error \<Rightarrow> Scope \<Rightarrow> (MsgNum \<times> bytes) list \<Rightarrow> world
     \<Rightarrow> error option outcome \<times> world" where
  "HandleConnection_loop env conn final scope [] w =
     (if final = io_EOF \<or> final = io_ErrClosedPipe then (Return None, w)
      else (Return (Some (Errorf ''Failed to read control packet: '' final)), w))"
| "HandleConnection_loop env conn final scope ((msgNum, payload) # rest) w =
     (case msgNum of
        MsgNum_AGENT_FORWARDING_NOTICE \<Rightarrow>
          (case Unmarshal_notice env payload of
             Inl err \<Rightarrow>
               (Return (Some (Errorf ''Failed to unmarshal AgentForwardingNoticeMsg: '' err)), w)
           | Inr notice \<Rightarrow>
               HandleConnection_loop env conn final
                 (scope\<lparr>ClientName := ReadableName notice,
                        ClientHostname := Host notice,
                        ClientPort := Port notice\<rparr>) rest w)
      | MsgNum_EXECUTION_REQUEST \<Rightarrow>
          (case Unmarshal_execReq env payload of
             Inl err \<Rightarrow>
               (Return (Some (Errorf ''Failed to unmarshal ExecutionRequestMessage: '' err)), w)
           | Inr execReq \<Rightarrow>
               (case handleExecutionRequest env conn
                       (scope\<lparr>ServiceHostname := Server execReq,
                              ServiceUsername := User execReq\<rparr>) (Command execReq) w of
                  (r, w1) \<Rightarrow> (Return r, w1)))
      | MsgNum_CREDENTIAL_REQUEST \<Rightarrow>
          (case Unmarshal_credReq env payload of
             Inl err \<Rightarrow>
               (Return (Some (Errorf ''Failed to unmarshal CredentialRequest: '' err)), w)
           | Inr credReq \<Rightarrow>
               (case handleCredentialRequest env conn scope credReq w of
                  (Panic msg, credReq1, w1) \<Rightarrow> (Panic msg, w1)
                | (Return None, credReq1, w1) \<Rightarrow>
                    HandleConnection_loop env conn final scope rest w1
                | (Return (Some err), credReq1, w1) \<Rightarrow>
                    HandleConnection_loop env conn final scope rest
                      (emit (Inform (''Error handling ''
                                     @ CredentialRequestToString env scope credReq1
                                     @ '': '' @ Error err)) w1)))
      | MsgNum_AGENTC_EXTENSION \<Rightarrow>
          (if ExtensionType (Unmarshal_extension env payload) = AgentGuardExtensionType env
           then HandleConnection_loop env conn final scope rest
                  (snd (WriteControlPacket conn MsgNum_AGENT_SUCCESS empty_payload w))
           else unrecognized env conn msgNum w)
      | _ \<Rightarrow> unrecognized env conn msgNum w)"

definition zero_Scope :: Scope where
  "zero_Scope = \<lparr>ClientName = [], ClientHostname = [], ClientPort = 0,
                 ServiceHostname = [], ServiceUsername = []\<rparr>"

definition HandleConnection ::
  "env \<Rightarrow> stream \<Rightarrow> error \<Rightarrow> (MsgNum \<times> bytes) list \<Rightarrow> world \<Rightarrow> error option outcome \<times> world" where
  "HandleConnection env conn final packets w =
     HandleConnection_loop env conn final zero_Scope packets
       (emit (Inform ''New incoming connection'') w)"

section \<open>Control packet framing\<close>

definition be32 :: "bytes \<Rightarrow> nat" where
  "be32 bs = foldl (\<lambda>acc b. acc * 256 + unat b) 0 bs"

text \<open>
  Modelled from the spec: \<^verbatim>\<open>ReadControlPacket\<close> is declared outside \<^verbatim>\<open>agent.go\<close>. The
  spec gives the layout \<open>msg_num:u8 || payload_len:u32_be || payload\<close>, a maximum payload size
  that readers enforce, and the rule that EOF at the boundary of a message is clean while EOF
  inside a message is an error. The argument is what the peer sends before it closes the
  connection; the result is what the call returns and what is left to read. The wire values
  of the message numbers are not given: \<open>decode\<close> stands for them.
\<close>

definition ReadControlPacket ::
  "nat \<Rightarrow> (8 word \<Rightarrow> MsgNum) \<Rightarrow> bytes \<Rightarrow> (error + MsgNum \<times> bytes) \<times> bytes" where
  "ReadControlPacket max_payload decode bs =
     (case bs of
        [] \<Rightarrow> (Inl io_EOF, [])
      | n # rest \<Rightarrow>
          if length rest < 4 then (Inl (errorString ''short read''), [])
          else
            (let len = be32 (take 4 rest); body = drop 4 rest in
             if max_payload < len then (Inl (errorString ''oversized payload''), body)
             else if length body < len then (Inl (errorString ''short read''), [])
             else (Inr (decode n, take len body), drop len body)))"

section \<open>Vocabulary of the properties\<close>

text \<open>What a call added to the events.\<close>

definition new_events :: "world \<Rightarrow> world \<Rightarrow> event list" where
  "new_events w w' = drop (length (events w)) (events w')"

text \<open>The request as \<^verbatim>\<open>checkChallenge\<close> leaves it: the one the policy is asked about.\<close>

definition narrowed :: "env \<Rightarrow> Scope \<Rightarrow> CredentialRequest \<Rightarrow> CredentialRequest" where
  "narrowed env scope req =
     req\<lparr>req_Challenge := snd (checkChallenge env scope (req_Challenge req))\<rparr>"

text \<open>The events of \<^verbatim>\<open>signCredential\<close> are the draw of the nonce and the signature.\<close>

definition signing_event :: "event \<Rightarrow> bool" where
  "signing_event e = (case e of RandRead n \<Rightarrow> True | Signed k b \<Rightarrow> True | _ \<Rightarrow> False)"

section \<open>A concrete environment\<close>

text \<open>
  The setting of the spec's scenarios E1 and E3: the stub's host is \<open>10.0.0.2:2222\<close>,
  \<^verbatim>\<open>known_hosts\<close> holds one key for it, the policy approves, one signer is configured, and
  the server sent 42 bytes of which 7 are still buffered at the handoff.
\<close>

definition kh0 :: "string \<Rightarrow> PublicKey \<Rightarrow> error option" where
  "kh0 addr pk =
     (if addr = ''10.0.0.2:2222'' \<and> pk = PublicKey ''ssh-ed25519'' [1]
      then None else Some (errorString ''knownhosts: key is unknown''))"

definition scope0 :: Scope where
  "scope0 = \<lparr>ClientName = ''laptop'', ClientHostname = ''10.0.0.2'', ClientPort = 2222,
             ServiceHostname = ''srv.example'', ServiceUsername = ''alice''\<rparr>"

definition req0 :: CredentialRequest where
  "req0 = \<lparr>req_Op = [3], req_Challenge = Some \<lparr>ServerPublicKeys = [[9], [], [1], [1, 2]]\<rparr>\<rparr>"

definition signer0 :: Signer where
  "signer0 = \<lparr>signer_PublicKey = [5],
              signer_Sign = (\<lambda>data. Inr \<lparr>Format = ''ssh-ed25519'', Blob = 6 # data\<rparr>)\<rparr>"

definition env0 :: env where
  "env0 = \<lparr>knownhosts_New = Inr kh0,
           ParsePublicKey = (\<lambda>b. if b = [] then Inl (errorString ''ssh: short read'')
                                  else Inr (PublicKey ''ssh-ed25519'' b)),
           RequestApproval = (\<lambda>scope cmd. None),
           RequestCredentialApproval = (\<lambda>scope req. None),
           getSigners = [signer0],
           rand_ReadFull = (\<lambda>n. Inr (replicate n 7)),
           proto_Marshal = (\<lambda>cred. Inr (cred_Op cred)),
           Unmarshal_notice =
             (\<lambda>b. Inr \<lparr>ReadableName = ''laptop'', Host = ''10.0.0.2'', Port = 2222\<rparr>),
           Unmarshal_execReq =
             (\<lambda>b. Inr \<lparr>User = ''alice'', Server = ''srv.example'', Command = ''uptime''\<rparr>),
           Unmarshal_credReq = (\<lambda>b. Inr req0),
           Unmarshal_extension =
             (\<lambda>b. \<lparr>ExtensionType = (if b = [1] then ''guard'' else ''other'')\<rparr>),
           AgentGuardExtensionType = ''guard'',
           yamux_Server = None,
           Accept = (\<lambda>i. None),
           OrderHostKeyAlgs = (\<lambda>host. Inr [''ssh-ed25519'']),
           NewProxyConn =
             (\<lambda>host cfg fil. Inr \<lparr>run_err = None, BytesRead = 42, BufferedFromServer = 7\<rparr>),
           fmt_d = (\<lambda>m. ''?''),
           fmt_v = (\<lambda>r. ''?''),
           CredentialRequestToString = (\<lambda>scope req. ''request'')\<rparr>"

definition w0 :: world where
  "w0 = \<lparr>events = [], wscript = []\<rparr>"

text \<open>Variations: the policy refuses, no signer is configured, the signer fails.\<close>

definition env_denied :: env where
  "env_denied = env0\<lparr>RequestApproval := (\<lambda>scope cmd. Some (errorString ''denied'')),
                      RequestCredentialApproval := (\<lambda>scope req. Some (errorString ''denied''))\<rparr>"

definition env_no_signers :: env where
  "env_no_signers = env0\<lparr>getSigners := []\<rparr>"

definition env_sign_fails :: env where
  "env_sign_fails =
     env0\<lparr>getSigners := [signer0\<lparr>signer_Sign := (\<lambda>data. Inl (errorString ''agent refused operation''))\<rparr>]\<rparr>"

text \<open>
  Variations of the proxy: the server sent more than \<open>2^32\<close> bytes before the handoff, the
  proxy's run failed, the host key algorithms could not be read from \<^verbatim>\<open>known_hosts\<close>.
\<close>

definition env_flood :: env where
  "env_flood =
     env0\<lparr>NewProxyConn :=
            (\<lambda>host cfg fil. Inr \<lparr>run_err = None, BytesRead = 4294967338, BufferedFromServer = 7\<rparr>)\<rparr>"

definition env_run_fails :: env where
  "env_run_fails =
     env0\<lparr>NewProxyConn :=
            (\<lambda>host cfg fil. Inr \<lparr>run_err = Some (errorString ''ssh: handshake failed''),
                                  BytesRead = 21, BufferedFromServer = 0\<rparr>)\<rparr>"

definition env_no_algs :: env where
  "env_no_algs =
     env0\<lparr>OrderHostKeyAlgs := (\<lambda>host. Inl (errorString ''open known_hosts: no such file''))\<rparr>"

text \<open>A connection that the peer has closed: the next write on it fails.\<close>

definition w_broken :: world where
  "w_broken = \<lparr>events = [], wscript = [Some (errorString ''write: broken pipe'')]\<rparr>"

section \<open>Challenge verification: the first accepted candidate\<close>

lemma client_endpoint_scope0: "client_endpoint scope0 = ''10.0.0.2:2222''"
  by (simp add: client_endpoint_def scope0_def JoinHostPort_def digit_def)

lemma accepts_iff:
  "accepts env kh addr k \<longleftrightarrow> (\<exists>pk. ParsePublicKey env k = Inr pk \<and> kh addr pk = None)"
  by (simp add: accepts_def split: sum.splits)

lemma checkChallenge_loop_None:
  "checkChallenge_loop env kh addr keys = None \<longleftrightarrow> (\<forall>k \<in> set keys. \<not> accepts env kh addr k)"
  by (induction keys) auto

lemma checkChallenge_loop_skip:
  "\<not> accepts env kh addr pkBytes \<Longrightarrow>
     checkChallenge_loop env kh addr (pre @ pkBytes # post) = checkChallenge_loop env kh addr (pre @ post)"
  by (induction pre) auto

lemma checkChallenge_loop_first:
  "checkChallenge_loop env kh addr keys = Some k \<Longrightarrow>
     \<exists>pre post. keys = pre @ k # post \<and> accepts env kh addr k
        \<and> (\<forall>k' \<in> set pre. \<not> accepts env kh addr k')"
proof (induction keys)
  case Nil
  then show ?case by simp
next
  case (Cons a keys)
  show ?case
  proof (cases "accepts env kh addr a")
    case True
    with Cons.prems have "a = k" by simp
    with True have "a # keys = [] @ k # keys \<and> accepts env kh addr k
        \<and> (\<forall>k' \<in> set []. \<not> accepts env kh addr k')" by simp
    then show ?thesis by blast
  next
    case False
    with Cons.prems have "checkChallenge_loop env kh addr keys = Some k" by simp
    from Cons.IH [OF this] obtain pre post where h: "keys = pre @ k # post"
      "accepts env kh addr k" "\<forall>k' \<in> set pre. \<not> accepts env kh addr k'" by blast
    with False have "a # keys = (a # pre) @ k # post \<and> accepts env kh addr k
        \<and> (\<forall>k' \<in> set (a # pre). \<not> accepts env kh addr k')" by simp
    then show ?thesis by blast
  qed
qed

lemma checkChallenge_ok:
  assumes "fst (checkChallenge env scope challenge) = None"
  shows "\<exists>kh c k. knownhosts_New env = Inr kh \<and> challenge = Some c
           \<and> checkChallenge_loop env kh (client_endpoint scope) (ServerPublicKeys c) = Some k
           \<and> snd (checkChallenge env scope challenge) = Some (c\<lparr>ServerPublicKeys := [k]\<rparr>)"
proof (cases "knownhosts_New env")
  case (Inl err)
  with assms show ?thesis by (simp add: checkChallenge_def)
next
  case (Inr kh)
  show ?thesis
  proof (cases challenge)
    case None
    with Inr assms show ?thesis by (simp add: checkChallenge_def GetServerPublicKeys_def)
  next
    case (Some c)
    with Inr assms show ?thesis
      by (cases "checkChallenge_loop env kh (client_endpoint scope) (ServerPublicKeys c)")
         (simp_all add: checkChallenge_def GetServerPublicKeys_def)
  qed
qed

lemma checkChallenge_fails_iff:
  "fst (checkChallenge env scope challenge) \<noteq> None \<longleftrightarrow>
     (\<forall>kh. knownhosts_New env = Inr kh \<longrightarrow>
        (\<forall>k \<in> set (GetServerPublicKeys challenge). \<not> accepts env kh (client_endpoint scope) k))"
proof (cases "knownhosts_New env")
  case (Inl err)
  then show ?thesis by (simp add: checkChallenge_def)
next
  case (Inr kh)
  then show ?thesis
    by (cases "checkChallenge_loop env kh (client_endpoint scope) (GetServerPublicKeys challenge)")
       (auto simp: checkChallenge_def checkChallenge_loop_None [symmetric])
qed

lemma checkChallenge_fails_unchanged:
  "fst (checkChallenge env scope challenge) \<noteq> None \<Longrightarrow>
     snd (checkChallenge env scope challenge) = challenge"
  by (auto simp: checkChallenge_def split: sum.splits option.splits)

text \<open>
  Claim C10. During challenge verification a candidate key blob that does not parse is skipped
  silently: the verdict, and on success the narrowed challenge, are those of the list without
  it, wherever it stands in the list. Verification fails exactly when no candidate both parses
  and is accepted by \<^verbatim>\<open>known_hosts\<close> for the client endpoint (none can be when
  \<^verbatim>\<open>known_hosts\<close> itself cannot be loaded), and a failed verification leaves the challenge
  as it was.
\<close>

theorem checkChallenge_unparsable_candidate:
  "(ParsePublicKey env pkBytes = Inl err \<longrightarrow>
      fst (checkChallenge env scope (Some (c\<lparr>ServerPublicKeys := pre @ pkBytes # post\<rparr>)))
        = fst (checkChallenge env scope (Some (c\<lparr>ServerPublicKeys := pre @ post\<rparr>)))
      \<and> (fst (checkChallenge env scope (Some (c\<lparr>ServerPublicKeys := pre @ post\<rparr>))) = None \<longrightarrow>
           snd (checkChallenge env scope (Some (c\<lparr>ServerPublicKeys := pre @ pkBytes # post\<rparr>)))
             = snd (checkChallenge env scope (Some (c\<lparr>ServerPublicKeys := pre @ post\<rparr>)))))
   \<and> (fst (checkChallenge env scope challenge) \<noteq> None \<longleftrightarrow>
        (\<forall>kh. knownhosts_New env = Inr kh \<longrightarrow>
           (\<forall>k \<in> set (GetServerPublicKeys challenge). \<forall>pk.
              ParsePublicKey env k = Inr pk \<longrightarrow> kh (client_endpoint scope) pk \<noteq> None)))
   \<and> (fst (checkChallenge env scope challenge) \<noteq> None \<longrightarrow>
        snd (checkChallenge env scope challenge) = challenge)"
proof (intro conjI impI)
  assume p: "ParsePublicKey env pkBytes = Inl err"
  then have na: "\<not> accepts env kh addr pkBytes" for kh addr
    by (simp add: accepts_def)
  show "fst (checkChallenge env scope (Some (c\<lparr>ServerPublicKeys := pre @ pkBytes # post\<rparr>)))
        = fst (checkChallenge env scope (Some (c\<lparr>ServerPublicKeys := pre @ post\<rparr>)))"
    by (cases "knownhosts_New env")
       (simp_all add: checkChallenge_def GetServerPublicKeys_def checkChallenge_loop_skip [OF na]
          split: option.splits)
  show "snd (checkChallenge env scope (Some (c\<lparr>ServerPublicKeys := pre @ pkBytes # post\<rparr>)))
             = snd (checkChallenge env scope (Some (c\<lparr>ServerPublicKeys := pre @ post\<rparr>)))"
    if "fst (checkChallenge env scope (Some (c\<lparr>ServerPublicKeys := pre @ post\<rparr>))) = None"
    using that
    by (cases "knownhosts_New env")
       (simp_all add: checkChallenge_def GetServerPublicKeys_def checkChallenge_loop_skip [OF na]
          split: option.splits)
next
  show "fst (checkChallenge env scope challenge) \<noteq> None \<longleftrightarrow>
        (\<forall>kh. knownhosts_New env = Inr kh \<longrightarrow>
           (\<forall>k \<in> set (GetServerPublicKeys challenge). \<forall>pk.
              ParsePublicKey env k = Inr pk \<longrightarrow> kh (client_endpoint scope) pk \<noteq> None))"
    using checkChallenge_fails_iff [of env scope challenge] by (auto simp: accepts_iff)
next
  assume "fst (checkChallenge env scope challenge) \<noteq> None"
  then show "snd (checkChallenge env scope challenge) = challenge"
    by (rule checkChallenge_fails_unchanged)
qed

theorem checkChallenge_unparsable_candidate_witness:
  "ParsePublicKey env0 [] = Inl (errorString ''ssh: short read'')
   \<and> checkChallenge env0 scope0 (Some \<lparr>ServerPublicKeys = [[9], [], [1]]\<rparr>)
       = (None, Some \<lparr>ServerPublicKeys = [[1]]\<rparr>)
   \<and> checkChallenge env0 scope0 (Some \<lparr>ServerPublicKeys = [[9], [1]]\<rparr>)
       = (None, Some \<lparr>ServerPublicKeys = [[1]]\<rparr>)
   \<and> fst (checkChallenge env0 scope0 (Some \<lparr>ServerPublicKeys = [[], [9]]\<rparr>)) \<noteq> None
   \<and> snd (checkChallenge env0 scope0 (Some \<lparr>ServerPublicKeys = [[], [9]]\<rparr>))
       = Some \<lparr>ServerPublicKeys = [[], [9]]\<rparr>"
  using checkChallenge_unparsable_candidate
          [where env = env0 and pkBytes = "[]" and err = "errorString ''ssh: short read''"
             and scope = scope0 and c = "\<lparr>ServerPublicKeys = []\<rparr>" and pre = "[[9]]"
             and post = "[[1]]" and challenge = "Some \<lparr>ServerPublicKeys = [[], [9]]\<rparr>"]
  by (simp add: env0_def checkChallenge_def GetServerPublicKeys_def accepts_def kh0_def
        client_endpoint_scope0)

section \<open>Effects of the writes\<close>

lemma events_emit [simp]: "events (emit e w) = events w @ [e]"
  by (simp add: emit_def)

lemma wscript_emit [simp]: "wscript (emit e w) = wscript w"
  by (simp add: emit_def)

lemma new_events_append [simp]: "events w' = events w @ evs \<Longrightarrow> new_events w w' = evs"
  by (simp add: new_events_def)

lemma new_events_same [simp]: "new_events w w = []"
  by (simp add: new_events_def)

lemma events_WriteControlPacket [simp]:
  "events (snd (WriteControlPacket s n p w)) = events w @ [Wrote s n p]"
  by (simp add: WriteControlPacket_def split: list.splits)

lemma fst_WriteControlPacket:
  "fst (WriteControlPacket s n p w) = (case wscript w of [] \<Rightarrow> None | r # rs \<Rightarrow> r)"
  by (simp add: WriteControlPacket_def split: list.splits)

lemma proto_Marshal_resp_DENIED [simp]: "proto_Marshal_resp env DENIED = None"
  by (simp add: proto_Marshal_resp_def DENIED_def)

lemma events_writeCredentialResponse:
  "events (snd (writeCredentialResponse env conn resp w)) =
     events w @ (if proto_Marshal_resp env resp = None
                 then [Wrote conn MsgNum_CREDENTIAL_RESPONSE (proto_bytes resp)] else [])"
proof (cases "proto_Marshal_resp env resp")
  case None
  obtain r w1 where wr: "WriteControlPacket conn MsgNum_CREDENTIAL_RESPONSE (proto_bytes resp) w = (r, w1)"
    by (cases "WriteControlPacket conn MsgNum_CREDENTIAL_RESPONSE (proto_bytes resp) w")
  then have "events w1 = events w @ [Wrote conn MsgNum_CREDENTIAL_RESPONSE (proto_bytes resp)]"
    using events_WriteControlPacket [of conn MsgNum_CREDENTIAL_RESPONSE "proto_bytes resp" w]
    by simp
  with None wr show ?thesis
    by (cases r) (simp_all add: writeCredentialResponse_def)
next
  case (Some err)
  then show ?thesis by (simp add: writeCredentialResponse_def)
qed

lemma events_write_DENIED [simp]:
  "events (snd (writeCredentialResponse env conn DENIED w)) =
     events w @ [Wrote conn MsgNum_CREDENTIAL_RESPONSE (proto_bytes DENIED)]"
  by (simp add: events_writeCredentialResponse)

lemma fst_write_DENIED:
  "fst (writeCredentialResponse env conn DENIED w) =
     (case wscript w of
        [] \<Rightarrow> None
      | r # rs \<Rightarrow> map_option (Errorf ''Failed to write credential respoinse: '') r)"
proof -
  obtain r w1 where wr: "WriteControlPacket conn MsgNum_CREDENTIAL_RESPONSE (proto_bytes DENIED) w = (r, w1)"
    by (cases "WriteControlPacket conn MsgNum_CREDENTIAL_RESPONSE (proto_bytes DENIED) w")
  then have r: "r = (case wscript w of [] \<Rightarrow> None | r # rs \<Rightarrow> r)"
    using fst_WriteControlPacket [of conn MsgNum_CREDENTIAL_RESPONSE "proto_bytes DENIED" w]
    by simp
  from wr have "fst (writeCredentialResponse env conn DENIED w)
      = map_option (Errorf ''Failed to write credential respoinse: '') r"
    by (cases r) (simp_all add: writeCredentialResponse_def)
  with r show ?thesis by (simp split: list.splits)
qed

section \<open>What signing does\<close>

lemma signCredential_Return:
  assumes "signCredential env cred w = (Return (r, cred'), w1)"
  shows "cred_Challenge cred' = cred_Challenge cred \<and> cred_Op cred' = cred_Op cred
         \<and> (\<exists>evs. events w1 = events w @ evs \<and> list_all signing_event evs)"
  using assms
  by (auto simp: signCredential_def Let_def signing_event_def
           split: list.splits sum.splits)

lemma signCredential_Panic:
  assumes "signCredential env cred w = (Panic msg, w1)"
  shows "getSigners env = [] \<and> w1 = w"
  using assms
  by (auto simp: signCredential_def Let_def split: list.splits sum.splits)

lemma signCredential_first_signer:
  assumes "signCredential env cred w = (Return (None, cred'), w1)"
  shows "\<exists>signer others nonce data sig.
           getSigners env = signer # others
         \<and> rand_ReadFull env 32 = Inr nonce
         \<and> proto_Marshal env (cred\<lparr>SignerNonce := nonce, SignatureKey := signer_PublicKey signer\<rparr>)
             = Inr data
         \<and> signer_Sign signer data = Inr sig
         \<and> cred' = cred\<lparr>SignerNonce := nonce, SignatureKey := signer_PublicKey signer,
                         Signature := Blob sig, SignatureFormat := Format sig\<rparr>
         \<and> events w1 = events w @ [RandRead 32, Signed (signer_PublicKey signer) data]"
  using assms
  by (auto simp: signCredential_def Let_def split: list.splits sum.splits)

section \<open>The paths of the credential handler\<close>

lemma handleCredentialRequest_challenge_failed:
  assumes "fst (checkChallenge env scope (req_Challenge req)) = Some err"
  shows "handleCredentialRequest env conn scope req w =
           (Return (Some (Errorf ''request BLOCKED due to invalid challenge: '' err)),
            narrowed env scope req,
            snd (writeCredentialResponse env conn DENIED w))"
  using assms
  by (cases "checkChallenge env scope (req_Challenge req)")
     (simp add: handleCredentialRequest_def narrowed_def)

lemma handleCredentialRequest_policy_denied:
  assumes "fst (checkChallenge env scope (req_Challenge req)) = None"
    and "RequestCredentialApproval env scope (narrowed env scope req) = Some err"
  shows "handleCredentialRequest env conn scope req w =
           (Return (fst (writeCredentialResponse env conn DENIED w)),
            narrowed env scope req,
            snd (writeCredentialResponse env conn DENIED w))"
  using assms
  by (cases "checkChallenge env scope (req_Challenge req)")
     (simp add: handleCredentialRequest_def narrowed_def split: prod.splits)

lemma handleCredentialRequest_panic:
  assumes "fst (checkChallenge env scope (req_Challenge req)) = None"
    and "RequestCredentialApproval env scope (narrowed env scope req) = None"
    and "signCredential env (new_Credential (narrowed env scope req)) w = (Panic msg, w1)"
  shows "handleCredentialRequest env conn scope req w = (Panic msg, narrowed env scope req, w1)"
  using assms
  by (cases "checkChallenge env scope (req_Challenge req)")
     (simp add: handleCredentialRequest_def narrowed_def)

lemma handleCredentialRequest_sign_failed:
  assumes "fst (checkChallenge env scope (req_Challenge req)) = None"
    and "RequestCredentialApproval env scope (narrowed env scope req) = None"
    and "signCredential env (new_Credential (narrowed env scope req)) w = (Return (Some err, cred), w1)"
  shows "handleCredentialRequest env conn scope req w =
           (Return (Some (Errorf ''Failed to sign credential: '' err)),
            narrowed env scope req,
            snd (writeCredentialResponse env conn DENIED w1))"
  using assms
  by (cases "checkChallenge env scope (req_Challenge req)")
     (simp add: handleCredentialRequest_def narrowed_def)

lemma handleCredentialRequest_signed:
  assumes "fst (checkChallenge env scope (req_Challenge req)) = None"
    and "RequestCredentialApproval env scope (narrowed env scope req) = None"
    and "signCredential env (new_Credential (narrowed env scope req)) w = (Return (None, cred), w1)"
  shows "handleCredentialRequest env conn scope req w =
           (Return (fst (writeCredentialResponse env conn (APPROVED cred) w1)),
            narrowed env scope req,
            snd (writeCredentialResponse env conn (APPROVED cred) w1))"
  using assms
  by (cases "checkChallenge env scope (req_Challenge req)")
     (simp add: handleCredentialRequest_def narrowed_def split: prod.splits)

text \<open>
  What the handler adds to the events on each path; \<open>None\<close> of the last component stands
  for a path that issues no credential.
\<close>

lemma handleCredentialRequest_paths:
  assumes h: "handleCredentialRequest env conn scope req w = (out, req', w')"
  shows
    "(fst (checkChallenge env scope (req_Challenge req)) \<noteq> None
        \<and> new_events w w' = [Wrote conn MsgNum_CREDENTIAL_RESPONSE (proto_bytes DENIED)])
   \<or> (fst (checkChallenge env scope (req_Challenge req)) = None
        \<and> RequestCredentialApproval env scope (narrowed env scope req) \<noteq> None
        \<and> new_events w w' = [Wrote conn MsgNum_CREDENTIAL_RESPONSE (proto_bytes DENIED)])
   \<or> (fst (checkChallenge env scope (req_Challenge req)) = None
        \<and> RequestCredentialApproval env scope (narrowed env scope req) = None
        \<and> (\<exists>evs cred.
              list_all signing_event evs
            \<and> cred_Challenge cred = req_Challenge (narrowed env scope req)
            \<and> (new_events w w' = evs
               \<or> new_events w w' = evs @ [Wrote conn MsgNum_CREDENTIAL_RESPONSE (proto_bytes DENIED)]
               \<or> new_events w w' = evs @ [Wrote conn MsgNum_CREDENTIAL_RESPONSE (proto_bytes (APPROVED cred))])))"
proof (cases "fst (checkChallenge env scope (req_Challenge req))")
  case (Some err)
  from h handleCredentialRequest_challenge_failed [OF Some, of conn w]
  have "w' = snd (writeCredentialResponse env conn DENIED w)" by simp
  with Some show ?thesis by simp
next
  case None
  show ?thesis
  proof (cases "RequestCredentialApproval env scope (narrowed env scope req)")
    case (Some err)
    from h handleCredentialRequest_policy_denied [OF None Some, of conn w]
    have "w' = snd (writeCredentialResponse env conn DENIED w)" by simp
    with None Some show ?thesis by simp
  next
    case ok: None
    obtain res w1 where sc: "signCredential env (new_Credential (narrowed env scope req)) w = (res, w1)"
      by (cases "signCredential env (new_Credential (narrowed env scope req)) w")
    show ?thesis
    proof (cases res)
      case (Panic msg)
      with sc signCredential_Panic have "w1 = w" by blast
      moreover from sc Panic
      have "signCredential env (new_Credential (narrowed env scope req)) w = (Panic msg, w1)"
        by simp
      from h handleCredentialRequest_panic [OF None ok this, of conn]
      have "w' = w1" by simp
      ultimately have "new_events w w' = []" by simp
      moreover have "cred_Challenge (new_Credential (narrowed env scope req))
                       = req_Challenge (narrowed env scope req)"
        by (simp add: new_Credential_def)
      ultimately show ?thesis using None ok
        by (intro disjI2) (auto intro!: exI [of _ "[]"])
    next
      case (Return rc)
      obtain r cred where rc: "rc = (r, cred)" by (cases rc)
      from sc Return rc
      have sc': "signCredential env (new_Credential (narrowed env scope req)) w = (Return (r, cred), w1)"
        by simp
      from signCredential_Return [OF sc']
      obtain evs where evs: "events w1 = events w @ evs" "list_all signing_event evs"
        and ch: "cred_Challenge cred = req_Challenge (narrowed env scope req)"
        by (auto simp: new_Credential_def)
      show ?thesis
      proof (cases r)
        case (Some err)
        from h handleCredentialRequest_sign_failed [OF None ok sc' [unfolded Some], of conn]
        have "w' = snd (writeCredentialResponse env conn DENIED w1)" by simp
        with evs have "new_events w w' = evs @ [Wrote conn MsgNum_CREDENTIAL_RESPONSE (proto_bytes DENIED)]"
          by simp
        with None ok evs(2) ch show ?thesis by blast
      next
        case rn: None
        from h handleCredentialRequest_signed [OF None ok sc' [unfolded rn], of conn]
        have "w' = snd (writeCredentialResponse env conn (APPROVED cred) w1)" by simp
        with evs have "new_events w w' = evs
             \<or> new_events w w' = evs @ [Wrote conn MsgNum_CREDENTIAL_RESPONSE (proto_bytes (APPROVED cred))]"
          by (simp add: events_writeCredentialResponse)
        with None ok evs(2) ch show ?thesis by blast
      qed
    qed
  qed
qed

section \<open>Credential issuance\<close>

text \<open>
  Claim C2. When \<^verbatim>\<open>handleCredentialRequest\<close> answers APPROVED, the challenge of the
  credential it issues holds exactly one key; that key is one of the candidates of the
  original request, and it is the first of them that parses and that \<^verbatim>\<open>known_hosts\<close>
  accepts for the endpoint made of the scope's client hostname and port.
\<close>

theorem handleCredentialRequest_APPROVED_narrowed:
  assumes h: "handleCredentialRequest env conn scope req w = (out, req', w')"
    and wr: "Wrote s n (proto_bytes resp) \<in> set (new_events w w')"
    and st: "Status resp = CredentialResponse_APPROVED"
  shows "\<exists>kh cred ch k pre post.
           knownhosts_New env = Inr kh
         \<and> Credential resp = Some cred
         \<and> cred_Challenge cred = Some ch
         \<and> ServerPublicKeys ch = [k]
         \<and> k \<in> set (GetServerPublicKeys (req_Challenge req))
         \<and> GetServerPublicKeys (req_Challenge req) = pre @ k # post
         \<and> (\<exists>pk. ParsePublicKey env k = Inr pk \<and> kh (client_endpoint scope) pk = None)
         \<and> (\<forall>k' \<in> set pre.
               \<not> (\<exists>pk. ParsePublicKey env k' = Inr pk \<and> kh (client_endpoint scope) pk = None))"
proof -
  have no_sign: "Wrote s n (proto_bytes resp) \<notin> set evs" if "list_all signing_event evs" for evs
    using that by (auto simp: list_all_iff signing_event_def)
  have denied: "Wrote s n (proto_bytes resp) \<noteq> Wrote conn MsgNum_CREDENTIAL_RESPONSE (proto_bytes DENIED)"
    using st by (auto simp: DENIED_def)
  from handleCredentialRequest_paths [OF h] wr no_sign denied
  obtain evs cred where ok: "fst (checkChallenge env scope (req_Challenge req)) = None"
    and ch: "cred_Challenge cred = req_Challenge (narrowed env scope req)"
    and resp: "resp = APPROVED cred"
    by auto
  from checkChallenge_ok [OF ok] obtain kh c k where kh: "knownhosts_New env = Inr kh"
    and c: "req_Challenge req = Some c"
    and loop: "checkChallenge_loop env kh (client_endpoint scope) (ServerPublicKeys c) = Some k"
    and nar: "snd (checkChallenge env scope (req_Challenge req)) = Some (c\<lparr>ServerPublicKeys := [k]\<rparr>)"
    by blast
  from checkChallenge_loop_first [OF loop] obtain pre post where
    keys: "ServerPublicKeys c = pre @ k # post"
    and acc: "accepts env kh (client_endpoint scope) k"
    and first: "\<forall>k' \<in> set pre. \<not> accepts env kh (client_endpoint scope) k'"
    by blast
  from ch nar have "cred_Challenge cred = Some (c\<lparr>ServerPublicKeys := [k]\<rparr>)"
    by (simp add: narrowed_def)
  moreover from resp have "Credential resp = Some cred" by (simp add: APPROVED_def)
  moreover from c keys have "GetServerPublicKeys (req_Challenge req) = pre @ k # post"
    by (simp add: GetServerPublicKeys_def)
  ultimately show ?thesis
    using kh acc first unfolding accepts_iff
    by (intro exI [of _ kh] exI [of _ cred] exI [of _ "c\<lparr>ServerPublicKeys := [k]\<rparr>"]
              exI [of _ k] exI [of _ pre] exI [of _ post]) simp
qed

lemma handleCredentialRequest_env0:
  "handleCredentialRequest env0 Conn scope0 req0 w0 =
     (Return None,
      \<lparr>req_Op = [3], req_Challenge = Some \<lparr>ServerPublicKeys = [[1]]\<rparr>\<rparr>,
      \<lparr>events =
         [RandRead 32, Signed [5] [3],
          Wrote Conn MsgNum_CREDENTIAL_RESPONSE
            (proto_bytes
               (APPROVED \<lparr>cred_Op = [3], cred_Challenge = Some \<lparr>ServerPublicKeys = [[1]]\<rparr>,
                          SignerNonce = replicate 32 7, SignatureKey = [5], Signature = [6, 3],
                          SignatureFormat = ''ssh-ed25519''\<rparr>))],
       wscript = []\<rparr>)"
  by (simp add: handleCredentialRequest_def checkChallenge_def GetServerPublicKeys_def
        accepts_def kh0_def client_endpoint_scope0 env0_def req0_def w0_def signCredential_def
        signer0_def new_Credential_def writeCredentialResponse_def proto_Marshal_resp_def
        WriteControlPacket_def emit_def APPROVED_def Let_def)

theorem handleCredentialRequest_APPROVED_narrowed_witness:
  "\<exists>w' cred.
      handleCredentialRequest env0 Conn scope0 req0 w0 = (Return None, narrowed env0 scope0 req0, w')
    \<and> Wrote Conn MsgNum_CREDENTIAL_RESPONSE (proto_bytes (APPROVED cred)) \<in> set (new_events w0 w')
    \<and> Status (APPROVED cred) = CredentialResponse_APPROVED
    \<and> cred_Challenge cred = Some \<lparr>ServerPublicKeys = [[1]]\<rparr>
    \<and> GetServerPublicKeys (req_Challenge req0) = [[9], []] @ [1] # [[1, 2]]
    \<and> ParsePublicKey env0 [1] = Inr (PublicKey ''ssh-ed25519'' [1])
    \<and> kh0 (client_endpoint scope0) (PublicKey ''ssh-ed25519'' [1]) = None"
proof -
  let ?cred = "\<lparr>cred_Op = [3], cred_Challenge = Some \<lparr>ServerPublicKeys = [[1]]\<rparr>,
                 SignerNonce = replicate 32 7, SignatureKey = [5], Signature = [6, 3],
                 SignatureFormat = ''ssh-ed25519''\<rparr>"
  let ?w' = "\<lparr>events = [RandRead 32, Signed [5] [3],
                Wrote Conn MsgNum_CREDENTIAL_RESPONSE (proto_bytes (APPROVED ?cred))],
              wscript = []\<rparr>"
  have nar: "narrowed env0 scope0 req0 = \<lparr>req_Op = [3], req_Challenge = Some \<lparr>ServerPublicKeys = [[1]]\<rparr>\<rparr>"
    by (simp add: narrowed_def checkChallenge_def GetServerPublicKeys_def accepts_def kh0_def
          client_endpoint_scope0 env0_def req0_def)
  have h: "handleCredentialRequest env0 Conn scope0 req0 w0 = (Return None, narrowed env0 scope0 req0, ?w')"
    using handleCredentialRequest_env0 nar by simp
  have wr: "Wrote Conn MsgNum_CREDENTIAL_RESPONSE (proto_bytes (APPROVED ?cred)) \<in> set (new_events w0 ?w')"
    by (simp add: new_events_def w0_def)
  have st: "Status (APPROVED ?cred) = CredentialResponse_APPROVED"
    by (simp add: APPROVED_def)
  from handleCredentialRequest_APPROVED_narrowed [OF h wr st] h wr st
  show ?thesis
    by (intro exI [of _ ?w'] exI [of _ ?cred])
       (simp add: env0_def req0_def GetServerPublicKeys_def kh0_def client_endpoint_scope0)
qed

lemma narrowed_env0: 
  "narrowed env0 scope0 req0 = \<lparr>req_Op = [3], req_Challenge = Some \<lparr>ServerPublicKeys = [[1]]\<rparr>\<rparr>"
  by (simp add: narrowed_def checkChallenge_def GetServerPublicKeys_def accepts_def kh0_def
        client_endpoint_scope0 env0_def req0_def)

lemma checkChallenge_env0:
  "checkChallenge env0 scope0 (req_Challenge req0) = (None, Some \<lparr>ServerPublicKeys = [[1]]\<rparr>)"
  by (simp add: checkChallenge_def GetServerPublicKeys_def accepts_def kh0_def
        client_endpoint_scope0 env0_def req0_def)

lemma events_w0 [simp]: "events w0 = []" "wscript w0 = []"
  by (simp_all add: w0_def)

text \<open>Challenge verification reads only \<^verbatim>\<open>known_hosts\<close> and the key parser.\<close>

lemma checkChallenge_loop_env:
  "ParsePublicKey env' = ParsePublicKey env \<Longrightarrow>
     checkChallenge_loop env' kh addr keys = checkChallenge_loop env kh addr keys"
  by (induction keys) (simp_all add: accepts_def)

lemma checkChallenge_env:
  "knownhosts_New env' = knownhosts_New env \<Longrightarrow> ParsePublicKey env' = ParsePublicKey env \<Longrightarrow>
     checkChallenge env' scope c = checkChallenge env scope c"
  by (simp add: checkChallenge_def checkChallenge_loop_env [of env' env] split: sum.splits)

lemma checkChallenge_variations:
  "checkChallenge env_denied scope c = checkChallenge env0 scope c"
  "checkChallenge env_no_signers scope c = checkChallenge env0 scope c"
  "checkChallenge env_sign_fails scope c = checkChallenge env0 scope c"
  by (rule checkChallenge_env; simp add: env_denied_def env_no_signers_def env_sign_fails_def)+

lemma narrowed_variations:
  "narrowed env_denied scope0 req0 = narrowed env0 scope0 req0"
  "narrowed env_no_signers scope0 req0 = narrowed env0 scope0 req0"
  "narrowed env_sign_fails scope0 req0 = narrowed env0 scope0 req0"
  by (simp_all add: narrowed_def checkChallenge_variations)

text \<open>
  Claim C3. On every path of \<^verbatim>\<open>handleCredentialRequest\<close> on which challenge verification
  fails or the policy denies the request, the handler does nothing but write the DENIED
  response: no nonce is drawn, the signer is not invoked and no credential is sent. Whenever
  a nonce is drawn, the signer is invoked or a response carries a credential, both challenge
  verification and policy approval have succeeded before.
\<close>

theorem no_credential_without_verification_and_approval:
  assumes h: "handleCredentialRequest env conn scope req w = (out, req', w')"
  shows "(fst (checkChallenge env scope (req_Challenge req)) \<noteq> None
            \<or> RequestCredentialApproval env scope (narrowed env scope req) \<noteq> None
          \<longrightarrow> new_events w w' = [Wrote conn MsgNum_CREDENTIAL_RESPONSE (proto_bytes DENIED)])
       \<and> ((\<exists>e \<in> set (new_events w w').
              signing_event e
            \<or> (\<exists>s n r cred. e = Wrote s n (proto_bytes r) \<and> Credential r = Some cred))
          \<longrightarrow> fst (checkChallenge env scope (req_Challenge req)) = None
              \<and> RequestCredentialApproval env scope (narrowed env scope req) = None)"
proof -
  let ?d = "Wrote conn MsgNum_CREDENTIAL_RESPONSE (proto_bytes DENIED)"
  have d: "\<not> signing_event ?d"
    "\<And>s n r cred. ?d = Wrote s n (proto_bytes r) \<Longrightarrow> Credential r \<noteq> Some cred"
    by (auto simp: signing_event_def DENIED_def)
  from handleCredentialRequest_paths [OF h] show ?thesis
  proof (elim disjE conjE)
    assume "fst (checkChallenge env scope (req_Challenge req)) \<noteq> None" "new_events w w' = [?d]"
    with d show ?thesis by auto
  next
    assume "RequestCredentialApproval env scope (narrowed env scope req) \<noteq> None"
      "new_events w w' = [?d]"
    with d show ?thesis by auto
  next
    assume "fst (checkChallenge env scope (req_Challenge req)) = None"
      "RequestCredentialApproval env scope (narrowed env scope req) = None"
    then show ?thesis by simp
  qed
qed

lemma writeCredentialResponse_DENIED:
  "writeCredentialResponse env conn DENIED w =
     (case wscript w of
        [] \<Rightarrow> (None, emit (Wrote conn MsgNum_CREDENTIAL_RESPONSE (proto_bytes DENIED)) w)
      | r # rs \<Rightarrow>
          (map_option (Errorf ''Failed to write credential respoinse: '') r,
           (emit (Wrote conn MsgNum_CREDENTIAL_RESPONSE (proto_bytes DENIED)) w)\<lparr>wscript := rs\<rparr>))"
  by (simp add: writeCredentialResponse_def WriteControlPacket_def
           split: list.splits option.splits)

lemma handleCredentialRequest_env_denied:
  "handleCredentialRequest env_denied Conn scope0 req0 w0 =
     (Return None, narrowed env0 scope0 req0,
      \<lparr>events = [Wrote Conn MsgNum_CREDENTIAL_RESPONSE (proto_bytes DENIED)], wscript = []\<rparr>)"
proof -
  have ok: "fst (checkChallenge env_denied scope0 (req_Challenge req0)) = None"
    by (simp add: checkChallenge_variations checkChallenge_env0)
  have den: "RequestCredentialApproval env_denied scope0 (narrowed env_denied scope0 req0)
               = Some (errorString ''denied'')"
    by (simp add: env_denied_def)
  from handleCredentialRequest_policy_denied [OF ok den, of Conn w0] show ?thesis
    by (simp add: narrowed_variations writeCredentialResponse_DENIED w0_def emit_def)
qed

theorem no_credential_without_verification_and_approval_witness:
  "RequestCredentialApproval env_denied scope0 (narrowed env_denied scope0 req0) \<noteq> None
   \<and> new_events w0 (snd (snd (handleCredentialRequest env_denied Conn scope0 req0 w0)))
       = [Wrote Conn MsgNum_CREDENTIAL_RESPONSE (proto_bytes DENIED)]
   \<and> signing_event (Signed [5] [3])
   \<and> Signed [5] [3] \<in> set (new_events w0 (snd (snd (handleCredentialRequest env0 Conn scope0 req0 w0))))
   \<and> fst (checkChallenge env0 scope0 (req_Challenge req0)) = None
   \<and> RequestCredentialApproval env0 scope0 (narrowed env0 scope0 req0) = None"
proof -
  have a: "RequestCredentialApproval env_denied scope0 (narrowed env_denied scope0 req0) \<noteq> None"
    by (simp add: env_denied_def)
  have b: "signing_event (Signed [5] [3])"
    by (simp add: signing_event_def)
  have c: "Signed [5] [3] \<in> set (new_events w0 (snd (snd (handleCredentialRequest env0 Conn scope0 req0 w0))))"
    by (simp add: handleCredentialRequest_env0 new_events_def)
  from a b c
    no_credential_without_verification_and_approval
      [of env_denied Conn scope0 req0 w0 "Return None" "narrowed env0 scope0 req0"
          "\<lparr>events = [Wrote Conn MsgNum_CREDENTIAL_RESPONSE (proto_bytes DENIED)], wscript = []\<rparr>",
       OF handleCredentialRequest_env_denied]
    no_credential_without_verification_and_approval
      [of env0 Conn scope0 req0 w0 _ _ "snd (snd (handleCredentialRequest env0 Conn scope0 req0 w0))"]
  show ?thesis
    by (simp add: handleCredentialRequest_env_denied handleCredentialRequest_env0)
qed

section \<open>Denial and failure in the handlers\<close>

text \<open>
  Claim C5, as the code has it. A denial by the policy is not turned into an error. When the
  policy denies an execution request, the handler writes EXECUTION_DENIED with the reason of
  the denial and returns no error, whatever becomes of the write. When the policy denies a
  credential request, the handler writes CREDENTIAL_RESPONSE{DENIED} and returns the outcome
  of that write: no error when the write succeeded, the error of the write otherwise.
\<close>

theorem policy_denial_is_answered:
  "(RequestApproval env scope cmd = Some err \<longrightarrow>
      fst (handleExecutionRequest env conn scope cmd w) = None
    \<and> new_events w (snd (handleExecutionRequest env conn scope cmd w))
        = [Wrote conn MsgNum_EXECUTION_DENIED (ssh_Marshal (ExecutionDeniedMessage (Error err)))])
   \<and> (fst (checkChallenge env scope (req_Challenge req)) = None
        \<and> RequestCredentialApproval env scope (narrowed env scope req) = Some err' \<longrightarrow>
      fst (handleCredentialRequest env conn scope req w)
        = Return (case wscript w of
                    [] \<Rightarrow> None
                  | r # rs \<Rightarrow> map_option (Errorf ''Failed to write credential respoinse: '') r)
    \<and> new_events w (snd (snd (handleCredentialRequest env conn scope req w)))
        = [Wrote conn MsgNum_CREDENTIAL_RESPONSE (proto_bytes DENIED)])"
proof (intro conjI impI)
  assume "RequestApproval env scope cmd = Some err"
  then show "fst (handleExecutionRequest env conn scope cmd w) = None"
    and "new_events w (snd (handleExecutionRequest env conn scope cmd w))
        = [Wrote conn MsgNum_EXECUTION_DENIED (ssh_Marshal (ExecutionDeniedMessage (Error err)))]"
    by (simp_all add: handleExecutionRequest_def)
next
  assume a: "fst (checkChallenge env scope (req_Challenge req)) = None
        \<and> RequestCredentialApproval env scope (narrowed env scope req) = Some err'"
  then have h: "handleCredentialRequest env conn scope req w =
           (Return (fst (writeCredentialResponse env conn DENIED w)),
            narrowed env scope req,
            snd (writeCredentialResponse env conn DENIED w))"
    by (intro handleCredentialRequest_policy_denied) simp_all
  show "fst (handleCredentialRequest env conn scope req w)
        = Return (case wscript w of
                    [] \<Rightarrow> None
                  | r # rs \<Rightarrow> map_option (Errorf ''Failed to write credential respoinse: '') r)"
    by (simp add: h fst_write_DENIED)
  show "new_events w (snd (snd (handleCredentialRequest env conn scope req w)))
        = [Wrote conn MsgNum_CREDENTIAL_RESPONSE (proto_bytes DENIED)]"
    by (simp add: h)
qed

lemma handleCredentialRequest_env_denied_broken:
  "handleCredentialRequest env_denied Conn scope0 req0 w_broken =
     (Return (Some (errorString ''Failed to write credential respoinse: write: broken pipe'')),
      narrowed env0 scope0 req0,
      \<lparr>events = [Wrote Conn MsgNum_CREDENTIAL_RESPONSE (proto_bytes DENIED)], wscript = []\<rparr>)"
proof -
  have ok: "fst (checkChallenge env_denied scope0 (req_Challenge req0)) = None"
    by (simp add: checkChallenge_variations checkChallenge_env0)
  have den: "RequestCredentialApproval env_denied scope0 (narrowed env_denied scope0 req0)
               = Some (errorString ''denied'')"
    by (simp add: env_denied_def)
  from handleCredentialRequest_policy_denied [OF ok den, of Conn w_broken] show ?thesis
    by (simp add: narrowed_variations writeCredentialResponse_DENIED w_broken_def emit_def Errorf_def)
qed

text \<open>
  Claim C5 as stated fails: the policy denies a credential request on a connection that the
  peer has closed, and the handler returns an error.
\<close>

theorem credential_denial_returns_write_error:
  "fst (checkChallenge env_denied scope0 (req_Challenge req0)) = None
   \<and> RequestCredentialApproval env_denied scope0 (narrowed env_denied scope0 req0)
       = Some (errorString ''denied'')
   \<and> handleCredentialRequest env_denied Conn scope0 req0 w_broken =
       (Return (Some (errorString ''Failed to write credential respoinse: write: broken pipe'')),
        narrowed env0 scope0 req0,
        \<lparr>events = [Wrote Conn MsgNum_CREDENTIAL_RESPONSE (proto_bytes DENIED)], wscript = []\<rparr>)
   \<and> fst (handleCredentialRequest env_denied Conn scope0 req0 w_broken) \<noteq> Return None"
  by (simp add: handleCredentialRequest_env_denied_broken checkChallenge_variations
        checkChallenge_env0)
     (simp add: env_denied_def)

theorem policy_denial_is_answered_witness:
  "RequestApproval env_denied scope0 ''uptime'' = Some (errorString ''denied'')
   \<and> handleExecutionRequest env_denied Conn scope0 ''uptime'' w_broken
       = (None, \<lparr>events = [Wrote Conn MsgNum_EXECUTION_DENIED
                              (ssh_Marshal (ExecutionDeniedMessage ''denied''))],
                 wscript = []\<rparr>)
   \<and> fst (checkChallenge env_denied scope0 (req_Challenge req0)) = None
   \<and> RequestCredentialApproval env_denied scope0 (narrowed env_denied scope0 req0)
       = Some (errorString ''denied'')
   \<and> fst (handleCredentialRequest env_denied Conn scope0 req0 w0) = Return None
   \<and> new_events w0 (snd (snd (handleCredentialRequest env_denied Conn scope0 req0 w0)))
       = [Wrote Conn MsgNum_CREDENTIAL_RESPONSE (proto_bytes DENIED)]"
proof -
  have a: "RequestApproval env_denied scope0 ''uptime'' = Some (errorString ''denied'')"
    by (simp add: env_denied_def)
  have b: "fst (checkChallenge env_denied scope0 (req_Challenge req0)) = None"
    by (simp add: checkChallenge_variations checkChallenge_env0)
  have c: "RequestCredentialApproval env_denied scope0 (narrowed env_denied scope0 req0)
       = Some (errorString ''denied'')"
    by (simp add: env_denied_def)
  have d: "handleExecutionRequest env_denied Conn scope0 ''uptime'' w_broken
       = (None, \<lparr>events = [Wrote Conn MsgNum_EXECUTION_DENIED
                              (ssh_Marshal (ExecutionDeniedMessage ''denied''))],
                 wscript = []\<rparr>)"
    using a by (simp add: handleExecutionRequest_def WriteControlPacket_def w_broken_def emit_def)
  from a b c d
    policy_denial_is_answered
      [where env = env_denied and scope = scope0 and cmd = "''uptime''"
         and err = "errorString ''denied''" and conn = Conn and w = w0 and req = req0
         and err' = "errorString ''denied''"]
  show ?thesis by simp
qed

text \<open>
  Each failure while the credential is built makes \<^verbatim>\<open>signCredential\<close> return that error:
  the draw of the nonce, the marshalling of the credential, the signature.
\<close>

lemma signCredential_failures:
  assumes "getSigners env = signer # others"
  shows "rand_ReadFull env 32 = Inl err \<Longrightarrow>
           \<exists>cred' w1. signCredential env cred w = (Return (Some err, cred'), w1)"
    and "rand_ReadFull env 32 = Inr nonce \<Longrightarrow>
         proto_Marshal env (cred\<lparr>SignerNonce := nonce, SignatureKey := signer_PublicKey signer\<rparr>)
           = Inl err \<Longrightarrow>
           \<exists>cred' w1. signCredential env cred w = (Return (Some err, cred'), w1)"
    and "rand_ReadFull env 32 = Inr nonce \<Longrightarrow>
         proto_Marshal env (cred\<lparr>SignerNonce := nonce, SignatureKey := signer_PublicKey signer\<rparr>)
           = Inr data \<Longrightarrow>
         signer_Sign signer data = Inl err \<Longrightarrow>
           \<exists>cred' w1. signCredential env cred w = (Return (Some err, cred'), w1)"
  using assms by (simp_all add: signCredential_def Let_def)

text \<open>
  Claim C7. When building the credential fails (\<^verbatim>\<open>signCredential\<close> returns an error:
  the nonce, the marshalling or the signature failed), the handler writes
  CREDENTIAL_RESPONSE{DENIED} to the connection and returns a non-nil error; no response it
  writes is APPROVED; and the connection loop reports that error to the UI and goes on.
\<close>

theorem signing_failure_is_DENIED:
  assumes ok: "fst (checkChallenge env scope (req_Challenge req)) = None"
    and pol: "RequestCredentialApproval env scope (narrowed env scope req) = None"
    and sc: "signCredential env (new_Credential (narrowed env scope req)) w = (Return (Some err, cred), w1)"
    and um: "Unmarshal_credReq env payload = Inr req"
  shows "\<exists>w'. handleCredentialRequest env conn scope req w =
                (Return (Some (Errorf ''Failed to sign credential: '' err)), narrowed env scope req, w')
          \<and> events w' = events w1 @ [Wrote conn MsgNum_CREDENTIAL_RESPONSE (proto_bytes DENIED)]
          \<and> Wrote conn MsgNum_CREDENTIAL_RESPONSE (proto_bytes DENIED) \<in> set (new_events w w')
          \<and> (\<forall>e \<in> set (new_events w w'). \<forall>s n r.
                e = Wrote s n (proto_bytes r) \<longrightarrow> Status r = CredentialResponse_DENIED)
          \<and> HandleConnection_loop env conn final scope ((MsgNum_CREDENTIAL_REQUEST, payload) # rest) w
              = HandleConnection_loop env conn final scope rest
                  (emit (Inform (''Error handling ''
                                 @ CredentialRequestToString env scope (narrowed env scope req)
                                 @ '': Failed to sign credential: '' @ Error err)) w')"
proof -
  let ?w' = "snd (writeCredentialResponse env conn DENIED w1)"
  let ?d = "Wrote conn MsgNum_CREDENTIAL_RESPONSE (proto_bytes DENIED)"
  have h: "handleCredentialRequest env conn scope req w =
                (Return (Some (Errorf ''Failed to sign credential: '' err)), narrowed env scope req, ?w')"
    by (rule handleCredentialRequest_sign_failed [OF ok pol sc])
  have ev: "events ?w' = events w1 @ [?d]" by simp
  from signCredential_Return [OF sc] obtain evs where
    evs: "events w1 = events w @ evs" "list_all signing_event evs" by blast
  with ev have ne: "new_events w ?w' = evs @ [?d]" by simp
  have never: "\<forall>e \<in> set (new_events w ?w'). \<forall>s n r.
                e = Wrote s n (proto_bytes r) \<longrightarrow> Status r = CredentialResponse_DENIED"
    using evs(2) unfolding ne by (auto simp: list_all_iff signing_event_def DENIED_def)
  have loop: "HandleConnection_loop env conn final scope ((MsgNum_CREDENTIAL_REQUEST, payload) # rest) w
              = HandleConnection_loop env conn final scope rest
                  (emit (Inform (''Error handling ''
                                 @ CredentialRequestToString env scope (narrowed env scope req)
                                 @ '': Failed to sign credential: '' @ Error err)) ?w')"
    by (simp add: um h Errorf_def)
  from h ev ne never loop show ?thesis
    by (intro exI [of _ ?w']) simp
qed

lemma signCredential_env_sign_fails:
  "signCredential env_sign_fails (new_Credential (narrowed env0 scope0 req0)) w0 =
     (Return (Some (errorString ''agent refused operation''),
              \<lparr>cred_Op = [3], cred_Challenge = Some \<lparr>ServerPublicKeys = [[1]]\<rparr>,
               SignerNonce = replicate 32 7, SignatureKey = [5], Signature = [],
               SignatureFormat = []\<rparr>),
      \<lparr>events = [RandRead 32, Signed [5] [3]], wscript = []\<rparr>)"
  unfolding narrowed_env0
  by (simp add: signCredential_def env_sign_fails_def env0_def signer0_def
        new_Credential_def emit_def w0_def Let_def)

theorem signing_failure_is_DENIED_witness:
  "fst (checkChallenge env_sign_fails scope0 (req_Challenge req0)) = None
   \<and> RequestCredentialApproval env_sign_fails scope0 (narrowed env_sign_fails scope0 req0) = None
   \<and> Unmarshal_credReq env_sign_fails [] = Inr req0
   \<and> handleCredentialRequest env_sign_fails Conn scope0 req0 w0 =
       (Return (Some (errorString ''Failed to sign credential: agent refused operation'')),
        narrowed env0 scope0 req0,
        \<lparr>events = [RandRead 32, Signed [5] [3],
                   Wrote Conn MsgNum_CREDENTIAL_RESPONSE (proto_bytes DENIED)],
         wscript = []\<rparr>)
   \<and> HandleConnection_loop env_sign_fails Conn io_EOF scope0 [(MsgNum_CREDENTIAL_REQUEST, [])] w0 =
       (Return None,
        \<lparr>events = [RandRead 32, Signed [5] [3],
                   Wrote Conn MsgNum_CREDENTIAL_RESPONSE (proto_bytes DENIED),
                   Inform ''Error handling request: Failed to sign credential: agent refused operation''],
         wscript = []\<rparr>)"
proof -
  have ok: "fst (checkChallenge env_sign_fails scope0 (req_Challenge req0)) = None"
    by (simp add: checkChallenge_variations checkChallenge_env0)
  have pol: "RequestCredentialApproval env_sign_fails scope0 (narrowed env_sign_fails scope0 req0) = None"
    by (simp add: env_sign_fails_def env0_def)
  have um: "Unmarshal_credReq env_sign_fails [] = Inr req0"
    by (simp add: env_sign_fails_def env0_def)
  have sc: "signCredential env_sign_fails (new_Credential (narrowed env_sign_fails scope0 req0)) w0 =
     (Return (Some (errorString ''agent refused operation''),
              \<lparr>cred_Op = [3], cred_Challenge = Some \<lparr>ServerPublicKeys = [[1]]\<rparr>,
               SignerNonce = replicate 32 7, SignatureKey = [5], Signature = [],
               SignatureFormat = []\<rparr>),
      \<lparr>events = [RandRead 32, Signed [5] [3]], wscript = []\<rparr>)"
    by (simp add: narrowed_variations signCredential_env_sign_fails)
  have str: "CredentialRequestToString env_sign_fails scope0 r = ''request''" for r
    by (simp add: env_sign_fails_def env0_def)
  from signing_failure_is_DENIED [OF ok pol sc um, of Conn io_EOF "[]"]
  obtain w' where
    h: "handleCredentialRequest env_sign_fails Conn scope0 req0 w0 =
          (Return (Some (Errorf ''Failed to sign credential: '' (errorString ''agent refused operation''))),
           narrowed env_sign_fails scope0 req0, w')"
    and ev: "events w' = [RandRead 32, Signed [5] [3],
                          Wrote Conn MsgNum_CREDENTIAL_RESPONSE (proto_bytes DENIED)]"
    and loop: "HandleConnection_loop env_sign_fails Conn io_EOF scope0 [(MsgNum_CREDENTIAL_REQUEST, [])] w0
              = HandleConnection_loop env_sign_fails Conn io_EOF scope0 []
                  (emit (Inform (''Error handling ''
                                 @ CredentialRequestToString env_sign_fails scope0 (narrowed env_sign_fails scope0 req0)
                                 @ '': Failed to sign credential: '' @ Error (errorString ''agent refused operation''))) w')"
    by auto
  have w': "w' = \<lparr>events = [RandRead 32, Signed [5] [3],
                   Wrote Conn MsgNum_CREDENTIAL_RESPONSE (proto_bytes DENIED)], wscript = []\<rparr>"
    using h handleCredentialRequest_sign_failed [OF ok pol sc, of Conn]
    by (simp add: writeCredentialResponse_DENIED emit_def)
  from ok pol um h loop show ?thesis
    by (simp add: w' narrowed_variations Errorf_def str emit_def)
qed

text \<open>
  Claim C6, what the code does. A credential that \<^verbatim>\<open>signCredential\<close> signs carries the
  public key and the signature of the first signer of the list. An empty signer list is not
  checked: \<^verbatim>\<open>signers[0]\<close> panics, so a credential request that has passed challenge
  verification and the policy makes the handler, and the loop of \<^verbatim>\<open>HandleConnection\<close>
  with it, panic with nothing written to the connection and nothing reported to the UI.
\<close>

theorem first_signer_signs_and_empty_list_panics:
  "(getSigners env = signer # others \<and> signCredential env cred w = (Return (None, cred'), w1) \<longrightarrow>
      SignatureKey cred' = signer_PublicKey signer
    \<and> (\<exists>data sig. signer_Sign signer data = Inr sig
          \<and> Signature cred' = Blob sig \<and> SignatureFormat cred' = Format sig
          \<and> new_events w w1 = [RandRead 32, Signed (signer_PublicKey signer) data]))
   \<and> (getSigners env = [] \<longrightarrow>
      signCredential env cred w = (Panic ''runtime error: index out of range [0] with length 0'', w))
   \<and> (getSigners env = []
        \<and> fst (checkChallenge env scope (req_Challenge req)) = None
        \<and> RequestCredentialApproval env scope (narrowed env scope req) = None \<longrightarrow>
      handleCredentialRequest env conn scope req w
        = (Panic ''runtime error: index out of range [0] with length 0'', narrowed env scope req, w))
   \<and> (getSigners env = []
        \<and> fst (checkChallenge env scope (req_Challenge req)) = None
        \<and> RequestCredentialApproval env scope (narrowed env scope req) = None
        \<and> Unmarshal_credReq env payload = Inr req \<longrightarrow>
      HandleConnection_loop env conn final scope ((MsgNum_CREDENTIAL_REQUEST, payload) # rest) w
        = (Panic ''runtime error: index out of range [0] with length 0'', w))"
proof -
  have sc: "signCredential env c v = (Panic ''runtime error: index out of range [0] with length 0'', v)"
    if "getSigners env = []" for c v
    using that by (simp add: signCredential_def)
  have h: "handleCredentialRequest env conn scope req w
        = (Panic ''runtime error: index out of range [0] with length 0'', narrowed env scope req, w)"
    if "getSigners env = []" "fst (checkChallenge env scope (req_Challenge req)) = None"
       "RequestCredentialApproval env scope (narrowed env scope req) = None"
    using handleCredentialRequest_panic [OF that(2) that(3) sc [OF that(1)]] .
  show ?thesis
  proof (intro conjI impI)
    assume a: "getSigners env = signer # others \<and> signCredential env cred w = (Return (None, cred'), w1)"
    then have "signCredential env cred w = (Return (None, cred'), w1)" by simp
    from signCredential_first_signer [OF this] a
    obtain nonce data sig where
      "signer_Sign signer data = Inr sig"
      "cred' = cred\<lparr>SignerNonce := nonce, SignatureKey := signer_PublicKey signer,
                     Signature := Blob sig, SignatureFormat := Format sig\<rparr>"
      "events w1 = events w @ [RandRead 32, Signed (signer_PublicKey signer) data]"
      by auto
    then show "SignatureKey cred' = signer_PublicKey signer"
      and "\<exists>data sig. signer_Sign signer data = Inr sig
          \<and> Signature cred' = Blob sig \<and> SignatureFormat cred' = Format sig
          \<and> new_events w w1 = [RandRead 32, Signed (signer_PublicKey signer) data]"
      by auto
  next
    assume "getSigners env = []"
    then show "signCredential env cred w
                 = (Panic ''runtime error: index out of range [0] with length 0'', w)"
      by (rule sc)
  next
    assume "getSigners env = []
        \<and> fst (checkChallenge env scope (req_Challenge req)) = None
        \<and> RequestCredentialApproval env scope (narrowed env scope req) = None"
    then show "handleCredentialRequest env conn scope req w
        = (Panic ''runtime error: index out of range [0] with length 0'', narrowed env scope req, w)"
      by (intro h) simp_all
  next
    assume a: "getSigners env = []
        \<and> fst (checkChallenge env scope (req_Challenge req)) = None
        \<and> RequestCredentialApproval env scope (narrowed env scope req) = None
        \<and> Unmarshal_credReq env payload = Inr req"
    then have "handleCredentialRequest env conn scope req w
        = (Panic ''runtime error: index out of range [0] with length 0'', narrowed env scope req, w)"
      by (intro h) simp_all
    with a show "HandleConnection_loop env conn final scope ((MsgNum_CREDENTIAL_REQUEST, payload) # rest) w
        = (Panic ''runtime error: index out of range [0] with length 0'', w)"
      by simp
  qed
qed

theorem first_signer_signs_and_empty_list_panics_witness:
  "getSigners env_no_signers = []
   \<and> fst (checkChallenge env_no_signers scope0 (req_Challenge req0)) = None
   \<and> RequestCredentialApproval env_no_signers scope0 (narrowed env_no_signers scope0 req0) = None
   \<and> Unmarshal_credReq env_no_signers [] = Inr req0
   \<and> handleCredentialRequest env_no_signers Conn scope0 req0 w0 =
       (Panic ''runtime error: index out of range [0] with length 0'', narrowed env0 scope0 req0, w0)
   \<and> HandleConnection_loop env_no_signers Conn io_EOF scope0 [(MsgNum_CREDENTIAL_REQUEST, [])] w0 =
       (Panic ''runtime error: index out of range [0] with length 0'', w0)
   \<and> getSigners env_sign_fails
       = [signer0\<lparr>signer_Sign := (\<lambda>data. Inl (errorString ''agent refused operation''))\<rparr>]
   \<and> getSigners env0 = [signer0]"
proof -
  have sg: "getSigners env_no_signers = []"
    by (simp add: env_no_signers_def)
  have ok: "fst (checkChallenge env_no_signers scope0 (req_Challenge req0)) = None"
    by (simp add: checkChallenge_variations checkChallenge_env0)
  have pol: "RequestCredentialApproval env_no_signers scope0 (narrowed env_no_signers scope0 req0) = None"
    by (simp add: env_no_signers_def env0_def)
  have um: "Unmarshal_credReq env_no_signers [] = Inr req0"
    by (simp add: env_no_signers_def env0_def)
  have others: "getSigners env_sign_fails
       = [signer0\<lparr>signer_Sign := (\<lambda>data. Inl (errorString ''agent refused operation''))\<rparr>]"
    "getSigners env0 = [signer0]"
    by (simp_all add: env_sign_fails_def env0_def)
  from sg ok pol um others
    first_signer_signs_and_empty_list_panics
      [where env = env_no_signers and scope = scope0 and req = req0 and w = w0 and conn = Conn
         and payload = "[]" and final = io_EOF and rest = "[]"]
  show ?thesis
    by (simp add: narrowed_variations)
qed

section \<open>The handoff\<close>

text \<open>When the proxy has been set up, \<^verbatim>\<open>proxySSH\<close> is one write on the control stream.\<close>

lemma proxySSH_run:
  assumes "OrderHostKeyAlgs env (ServiceHostname scope) = Inr algs"
    and "NewProxyConn env (ServiceHostname scope)
           \<lparr>cfg_User = ServiceUsername scope, HostKeyAlgorithms = algs\<rparr> fil = Inr proxy"
  shows "proxySSH env scope control fil w =
           (case run_err proxy of
              Some err \<Rightarrow>
                WriteControlPacket control MsgNum_HANDOFF_FAILED
                  (ssh_Marshal (HandoffFailedMessage (Error err))) w
            | None \<Rightarrow>
                WriteControlPacket control MsgNum_HANDOFF_COMPLETE
                  (ssh_Marshal (HandoffCompleteMessage
                     (word_of_int (BytesRead proxy - BufferedFromServer proxy)))) w)"
  using assms by (simp add: proxySSH_def)

text \<open>
  Claim C1, as the code has it. In every successful proxy run the only thing \<^verbatim>\<open>proxySSH\<close>
  writes is HANDOFF_COMPLETE on the control stream, and its \<open>next_transport_byte\<close>, a 32-bit
  field, is the number of bytes read from the server minus the number still buffered, reduced
  modulo \<open>2^32\<close>: it is that difference itself whenever the difference is below \<open>2^32\<close>.
\<close>

theorem handoff_complete_offset:
  assumes "OrderHostKeyAlgs env (ServiceHostname scope) = Inr algs"
    and "NewProxyConn env (ServiceHostname scope)
           \<lparr>cfg_User = ServiceUsername scope, HostKeyAlgorithms = algs\<rparr> fil = Inr proxy"
    and "run_err proxy = None"
  shows "\<exists>n. new_events w (snd (proxySSH env scope control fil w))
               = [Wrote control MsgNum_HANDOFF_COMPLETE (ssh_Marshal (HandoffCompleteMessage n))]
           \<and> uint n = (BytesRead proxy - BufferedFromServer proxy) mod 2 ^ 32
           \<and> (0 \<le> BytesRead proxy - BufferedFromServer proxy
               \<and> BytesRead proxy - BufferedFromServer proxy < 2 ^ 32
               \<longrightarrow> uint n = BytesRead proxy - BufferedFromServer proxy)"
proof -
  let ?n = "word_of_int (BytesRead proxy - BufferedFromServer proxy) :: 32 word"
  have "new_events w (snd (proxySSH env scope control fil w))
          = [Wrote control MsgNum_HANDOFF_COMPLETE (ssh_Marshal (HandoffCompleteMessage ?n))]"
    using assms by (simp add: proxySSH_run)
  moreover have m: "uint ?n = (BytesRead proxy - BufferedFromServer proxy) mod 2 ^ 32"
  proof -
    have "uint ?n = (BytesRead proxy - BufferedFromServer proxy) mod 2 ^ LENGTH(32)"
      by (rule uint_word_of_int)
    also have "LENGTH(32) = 32" by simp
    finally show ?thesis .
  qed
  moreover have "uint ?n = BytesRead proxy - BufferedFromServer proxy"
    if "0 \<le> BytesRead proxy - BufferedFromServer proxy"
       "BytesRead proxy - BufferedFromServer proxy < 2 ^ 32"
    using that unfolding m by simp
  ultimately show ?thesis by blast
qed

theorem handoff_complete_offset_witness:
  "OrderHostKeyAlgs env0 (ServiceHostname scope0) = Inr [''ssh-ed25519'']
   \<and> NewProxyConn env0 (ServiceHostname scope0)
        \<lparr>cfg_User = ServiceUsername scope0, HostKeyAlgorithms = [''ssh-ed25519'']\<rparr>
        (NewFilter ''uptime'' scope0)
       = Inr \<lparr>run_err = None, BytesRead = 42, BufferedFromServer = 7\<rparr>
   \<and> new_events w0 (snd (proxySSH env0 scope0 Control (NewFilter ''uptime'' scope0) w0))
       = [Wrote Control MsgNum_HANDOFF_COMPLETE (ssh_Marshal (HandoffCompleteMessage 35))]
   \<and> uint (35 :: 32 word) = 42 - 7"
proof -
  let ?p = "\<lparr>run_err = None, BytesRead = 42, BufferedFromServer = 7\<rparr>"
  have a: "OrderHostKeyAlgs env0 (ServiceHostname scope0) = Inr [''ssh-ed25519'']"
    by (simp add: env0_def)
  have b: "NewProxyConn env0 (ServiceHostname scope0)
        \<lparr>cfg_User = ServiceUsername scope0, HostKeyAlgorithms = [''ssh-ed25519'']\<rparr>
        (NewFilter ''uptime'' scope0) = Inr ?p"
    by (simp add: env0_def)
  have c: "run_err ?p = None" by simp
  have d: "new_events w0 (snd (proxySSH env0 scope0 Control (NewFilter ''uptime'' scope0) w0))
       = [Wrote Control MsgNum_HANDOFF_COMPLETE (ssh_Marshal (HandoffCompleteMessage 35))]"
    by (simp add: proxySSH_run [OF a b])
  from handoff_complete_offset [OF a b c, of w0 Control] a b d show ?thesis
    by simp
qed

text \<open>
  Claim C1 as stated fails: the server has sent \<open>2^32 + 42\<close> bytes, 7 of them are still
  buffered, the run succeeds, and HANDOFF_COMPLETE carries 35.
\<close>

theorem handoff_offset_wraps:
  "OrderHostKeyAlgs env_flood (ServiceHostname scope0) = Inr [''ssh-ed25519'']
   \<and> NewProxyConn env_flood (ServiceHostname scope0)
        \<lparr>cfg_User = ServiceUsername scope0, HostKeyAlgorithms = [''ssh-ed25519'']\<rparr>
        (NewFilter ''uptime'' scope0)
       = Inr \<lparr>run_err = None, BytesRead = 4294967338, BufferedFromServer = 7\<rparr>
   \<and> proxySSH env_flood scope0 Control (NewFilter ''uptime'' scope0) w0
       = (None, \<lparr>events = [Wrote Control MsgNum_HANDOFF_COMPLETE
                              (ssh_Marshal (HandoffCompleteMessage 35))],
                 wscript = []\<rparr>)
   \<and> uint (35 :: 32 word) \<noteq> 4294967338 - 7"
proof -
  have a: "OrderHostKeyAlgs env_flood (ServiceHostname scope0) = Inr [''ssh-ed25519'']"
    by (simp add: env_flood_def env0_def)
  have b: "NewProxyConn env_flood (ServiceHostname scope0)
        \<lparr>cfg_User = ServiceUsername scope0, HostKeyAlgorithms = [''ssh-ed25519'']\<rparr>
        (NewFilter ''uptime'' scope0)
       = Inr \<lparr>run_err = None, BytesRead = 4294967338, BufferedFromServer = 7\<rparr>"
    by (simp add: env_flood_def)
  have c: "word_of_int (4294967338 - 7) = (35 :: 32 word)"
    by simp
  have d: "proxySSH env_flood scope0 Control (NewFilter ''uptime'' scope0) w0
       = (None, \<lparr>events = [Wrote Control MsgNum_HANDOFF_COMPLETE
                              (ssh_Marshal (HandoffCompleteMessage 35))],
                 wscript = []\<rparr>)"
    unfolding proxySSH_run [OF a b]
    by (simp add: WriteControlPacket_def w0_def emit_def)
  from a b d show ?thesis by simp
qed

text \<open>
  Claim C4, as the code has it. Whenever \<^verbatim>\<open>proxySSH\<close> gets as far as running the proxy
  (the host key algorithms were read and \<^verbatim>\<open>NewProxyConn\<close> succeeded), it writes exactly one
  message, on the control stream: HANDOFF_FAILED with the text of the error when the run
  reported an error, HANDOFF_COMPLETE when it reported none. When setting up the proxy
  fails, \<^verbatim>\<open>proxySSH\<close> returns that error and writes neither message.
\<close>

theorem handoff_message_exactly_one:
  "(OrderHostKeyAlgs env (ServiceHostname scope) = Inr algs
      \<and> NewProxyConn env (ServiceHostname scope)
           \<lparr>cfg_User = ServiceUsername scope, HostKeyAlgorithms = algs\<rparr> fil = Inr proxy
    \<longrightarrow> (run_err proxy = Some err \<longrightarrow>
           new_events w (snd (proxySSH env scope control fil w))
             = [Wrote control MsgNum_HANDOFF_FAILED (ssh_Marshal (HandoffFailedMessage (Error err)))])
      \<and> (run_err proxy = None \<longrightarrow>
           new_events w (snd (proxySSH env scope control fil w))
             = [Wrote control MsgNum_HANDOFF_COMPLETE
                  (ssh_Marshal (HandoffCompleteMessage
                     (word_of_int (BytesRead proxy - BufferedFromServer proxy))))]))
   \<and> (OrderHostKeyAlgs env (ServiceHostname scope) = Inl err'
    \<longrightarrow> proxySSH env scope control fil w
          = (Some (Errorf ''Failed to extract host key algorithms from known_hosts: '' err'), w))
   \<and> (OrderHostKeyAlgs env (ServiceHostname scope) = Inr algs
      \<and> NewProxyConn env (ServiceHostname scope)
           \<lparr>cfg_User = ServiceUsername scope, HostKeyAlgorithms = algs\<rparr> fil = Inl err'
    \<longrightarrow> proxySSH env scope control fil w = (Some err', w))"
proof (intro conjI impI)
  assume s: "OrderHostKeyAlgs env (ServiceHostname scope) = Inr algs
      \<and> NewProxyConn env (ServiceHostname scope)
           \<lparr>cfg_User = ServiceUsername scope, HostKeyAlgorithms = algs\<rparr> fil = Inr proxy"
  then have s1: "OrderHostKeyAlgs env (ServiceHostname scope) = Inr algs"
    and s2: "NewProxyConn env (ServiceHostname scope)
           \<lparr>cfg_User = ServiceUsername scope, HostKeyAlgorithms = algs\<rparr> fil = Inr proxy"
    by simp_all
  note run = proxySSH_run [OF s1 s2, of control w]
  show "new_events w (snd (proxySSH env scope control fil w))
             = [Wrote control MsgNum_HANDOFF_FAILED (ssh_Marshal (HandoffFailedMessage (Error err)))]"
    if "run_err proxy = Some err"
    using that by (simp add: run)
  show "new_events w (snd (proxySSH env scope control fil w))
             = [Wrote control MsgNum_HANDOFF_COMPLETE
                  (ssh_Marshal (HandoffCompleteMessage
                     (word_of_int (BytesRead proxy - BufferedFromServer proxy))))]"
    if "run_err proxy = None"
    using that by (simp add: run)
next
  assume "OrderHostKeyAlgs env (ServiceHostname scope) = Inl err'"
  then show "proxySSH env scope control fil w
          = (Some (Errorf ''Failed to extract host key algorithms from known_hosts: '' err'), w)"
    by (simp add: proxySSH_def)
next
  assume "OrderHostKeyAlgs env (ServiceHostname scope) = Inr algs
      \<and> NewProxyConn env (ServiceHostname scope)
           \<lparr>cfg_User = ServiceUsername scope, HostKeyAlgorithms = algs\<rparr> fil = Inl err'"
  then show "proxySSH env scope control fil w = (Some err', w)"
    by (simp add: proxySSH_def)
qed

text \<open>
  Claim C4 as stated fails: the host key algorithms cannot be read, \<^verbatim>\<open>proxySSH\<close> returns
  the error, and neither HANDOFF_COMPLETE nor HANDOFF_FAILED is written.
\<close>

theorem handoff_message_missing:
  "proxySSH env_no_algs scope0 Control (NewFilter ''uptime'' scope0) w0
     = (Some (errorString ''Failed to extract host key algorithms from known_hosts: open known_hosts: no such file''),
        w0)
   \<and> new_events w0 (snd (proxySSH env_no_algs scope0 Control (NewFilter ''uptime'' scope0) w0)) = []"
  by (simp add: proxySSH_def env_no_algs_def Errorf_def)

theorem handoff_message_exactly_one_witness:
  "OrderHostKeyAlgs env_run_fails (ServiceHostname scope0) = Inr [''ssh-ed25519'']
   \<and> NewProxyConn env_run_fails (ServiceHostname scope0)
        \<lparr>cfg_User = ServiceUsername scope0, HostKeyAlgorithms = [''ssh-ed25519'']\<rparr>
        (NewFilter ''uptime'' scope0)
       = Inr \<lparr>run_err = Some (errorString ''ssh: handshake failed''),
               BytesRead = 21, BufferedFromServer = 0\<rparr>
   \<and> new_events w0 (snd (proxySSH env_run_fails scope0 Control (NewFilter ''uptime'' scope0) w0))
       = [Wrote Control MsgNum_HANDOFF_FAILED
            (ssh_Marshal (HandoffFailedMessage ''ssh: handshake failed''))]
   \<and> new_events w0 (snd (proxySSH env0 scope0 Control (NewFilter ''uptime'' scope0) w0))
       = [Wrote Control MsgNum_HANDOFF_COMPLETE (ssh_Marshal (HandoffCompleteMessage 35))]
   \<and> OrderHostKeyAlgs env_no_algs (ServiceHostname scope0)
       = Inl (errorString ''open known_hosts: no such file'')
   \<and> proxySSH env_no_algs scope0 Control (NewFilter ''uptime'' scope0) w0
       = (Some (errorString ''Failed to extract host key algorithms from known_hosts: open known_hosts: no such file''),
          w0)"
proof -
  let ?p = "\<lparr>run_err = Some (errorString ''ssh: handshake failed''),
               BytesRead = 21, BufferedFromServer = 0\<rparr>"
  let ?q = "\<lparr>run_err = None, BytesRead = 42, BufferedFromServer = 7\<rparr>"
  let ?cfg = "\<lparr>cfg_User = ServiceUsername scope0, HostKeyAlgorithms = [''ssh-ed25519'']\<rparr>"
  have a: "OrderHostKeyAlgs env_run_fails (ServiceHostname scope0) = Inr [''ssh-ed25519'']"
    "OrderHostKeyAlgs env0 (ServiceHostname scope0) = Inr [''ssh-ed25519'']"
    by (simp_all add: env_run_fails_def env0_def)
  have b: "NewProxyConn env_run_fails (ServiceHostname scope0) ?cfg (NewFilter ''uptime'' scope0) = Inr ?p"
    "NewProxyConn env0 (ServiceHostname scope0) ?cfg (NewFilter ''uptime'' scope0) = Inr ?q"
    by (simp_all add: env_run_fails_def env0_def)
  have c: "OrderHostKeyAlgs env_no_algs (ServiceHostname scope0)
       = Inl (errorString ''open known_hosts: no such file'')"
    by (simp add: env_no_algs_def)
  from a b c
    handoff_message_exactly_one
      [where env = env_run_fails and scope = scope0 and algs = "[''ssh-ed25519'']"
         and fil = "NewFilter ''uptime'' scope0" and proxy = ?p
         and err = "errorString ''ssh: handshake failed''" and w = w0 and control = Control]
    handoff_message_exactly_one
      [where env = env0 and scope = scope0 and algs = "[''ssh-ed25519'']"
         and fil = "NewFilter ''uptime'' scope0" and proxy = ?q and w = w0 and control = Control]
    handoff_message_exactly_one
      [where env = env_no_algs and scope = scope0 and w = w0 and control = Control
         and fil = "NewFilter ''uptime'' scope0"
         and err' = "errorString ''open known_hosts: no such file''"]
  show ?thesis by (simp add: Errorf_def)
qed

section \<open>The connection loop\<close>

lemma unrecognized_events:
  "new_events w (snd (unrecognized env conn msgNum w)) = [Wrote conn MsgNum_AGENT_FAILURE empty_payload]"
  "fst (unrecognized env conn msgNum w)
     = Return (Some (errorString (''Unrecognized incoming message: '' @ fmt_d env msgNum)))"
  by (simp_all add: unrecognized_def)

text \<open>
  Claim C8. On AGENTC_EXTENSION whose extension type is the guard extension type the agent
  writes AGENT_SUCCESS and goes on with the next message, the scope unchanged. On
  AGENTC_EXTENSION with any other extension type, and on any message number that the switch
  does not handle (in particular every number outside the enumeration), the agent writes
  AGENT_FAILURE and \<^verbatim>\<open>HandleConnection\<close> returns an error without reading further.
\<close>

theorem extension_and_unrecognized_messages:
  "(ExtensionType (Unmarshal_extension env payload) = AgentGuardExtensionType env \<longrightarrow>
      HandleConnection_loop env conn final scope ((MsgNum_AGENTC_EXTENSION, payload) # rest) w
        = HandleConnection_loop env conn final scope rest
            (snd (WriteControlPacket conn MsgNum_AGENT_SUCCESS empty_payload w))
      \<and> new_events w (snd (WriteControlPacket conn MsgNum_AGENT_SUCCESS empty_payload w))
          = [Wrote conn MsgNum_AGENT_SUCCESS empty_payload])
   \<and> (ExtensionType (Unmarshal_extension env payload) \<noteq> AgentGuardExtensionType env \<longrightarrow>
      fst (HandleConnection_loop env conn final scope ((MsgNum_AGENTC_EXTENSION, payload) # rest) w)
        = Return (Some (errorString (''Unrecognized incoming message: ''
                                     @ fmt_d env MsgNum_AGENTC_EXTENSION)))
      \<and> new_events w
           (snd (HandleConnection_loop env conn final scope ((MsgNum_AGENTC_EXTENSION, payload) # rest) w))
          = [Wrote conn MsgNum_AGENT_FAILURE empty_payload])
   \<and> (msgNum \<noteq> MsgNum_AGENT_FORWARDING_NOTICE \<and> msgNum \<noteq> MsgNum_EXECUTION_REQUEST
        \<and> msgNum \<noteq> MsgNum_CREDENTIAL_REQUEST \<and> msgNum \<noteq> MsgNum_AGENTC_EXTENSION \<longrightarrow>
      fst (HandleConnection_loop env conn final scope ((msgNum, payload) # rest) w)
        = Return (Some (errorString (''Unrecognized incoming message: '' @ fmt_d env msgNum)))
      \<and> new_events w (snd (HandleConnection_loop env conn final scope ((msgNum, payload) # rest) w))
          = [Wrote conn MsgNum_AGENT_FAILURE empty_payload])
   \<and> fst (HandleConnection_loop env conn final scope ((MsgNum_unrecognized b, payload) # rest) w)
        = Return (Some (errorString (''Unrecognized incoming message: ''
                                     @ fmt_d env (MsgNum_unrecognized b))))
   \<and> new_events w
        (snd (HandleConnection_loop env conn final scope ((MsgNum_unrecognized b, payload) # rest) w))
       = [Wrote conn MsgNum_AGENT_FAILURE empty_payload]"
proof -
  have other: "HandleConnection_loop env conn final scope ((m, payload) # rest) w
                 = unrecognized env conn m w"
    if "m \<noteq> MsgNum_AGENT_FORWARDING_NOTICE" "m \<noteq> MsgNum_EXECUTION_REQUEST"
       "m \<noteq> MsgNum_CREDENTIAL_REQUEST" "m \<noteq> MsgNum_AGENTC_EXTENSION" for m
    using that by (cases m) simp_all
  have ext: "HandleConnection_loop env conn final scope ((MsgNum_AGENTC_EXTENSION, payload) # rest) w
                 = unrecognized env conn MsgNum_AGENTC_EXTENSION w"
    if "ExtensionType (Unmarshal_extension env payload) \<noteq> AgentGuardExtensionType env"
    using that by simp
  have unknown: "MsgNum_unrecognized b \<noteq> MsgNum_AGENT_FORWARDING_NOTICE"
    "MsgNum_unrecognized b \<noteq> MsgNum_EXECUTION_REQUEST"
    "MsgNum_unrecognized b \<noteq> MsgNum_CREDENTIAL_REQUEST"
    "MsgNum_unrecognized b \<noteq> MsgNum_AGENTC_EXTENSION"
    by simp_all
  show ?thesis
  proof (intro conjI impI)
    assume "ExtensionType (Unmarshal_extension env payload) = AgentGuardExtensionType env"
    then show "HandleConnection_loop env conn final scope ((MsgNum_AGENTC_EXTENSION, payload) # rest) w
        = HandleConnection_loop env conn final scope rest
            (snd (WriteControlPacket conn MsgNum_AGENT_SUCCESS empty_payload w))"
      by simp
  next
    show "new_events w (snd (WriteControlPacket conn MsgNum_AGENT_SUCCESS empty_payload w))
          = [Wrote conn MsgNum_AGENT_SUCCESS empty_payload]"
      by simp
  next
    assume n: "ExtensionType (Unmarshal_extension env payload) \<noteq> AgentGuardExtensionType env"
    show "fst (HandleConnection_loop env conn final scope ((MsgNum_AGENTC_EXTENSION, payload) # rest) w)
        = Return (Some (errorString (''Unrecognized incoming message: ''
                                     @ fmt_d env MsgNum_AGENTC_EXTENSION)))"
      unfolding ext [OF n] by (rule unrecognized_events)
    show "new_events w
           (snd (HandleConnection_loop env conn final scope ((MsgNum_AGENTC_EXTENSION, payload) # rest) w))
          = [Wrote conn MsgNum_AGENT_FAILURE empty_payload]"
      unfolding ext [OF n] by (rule unrecognized_events)
  next
    assume "msgNum \<noteq> MsgNum_AGENT_FORWARDING_NOTICE \<and> msgNum \<noteq> MsgNum_EXECUTION_REQUEST
        \<and> msgNum \<noteq> MsgNum_CREDENTIAL_REQUEST \<and> msgNum \<noteq> MsgNum_AGENTC_EXTENSION"
    then have o: "HandleConnection_loop env conn final scope ((msgNum, payload) # rest) w
                 = unrecognized env conn msgNum w"
      by (intro other) simp_all
    show "fst (HandleConnection_loop env conn final scope ((msgNum, payload) # rest) w)
        = Return (Some (errorString (''Unrecognized incoming message: '' @ fmt_d env msgNum)))"
      unfolding o by (rule unrecognized_events)
    show "new_events w (snd (HandleConnection_loop env conn final scope ((msgNum, payload) # rest) w))
          = [Wrote conn MsgNum_AGENT_FAILURE empty_payload]"
      unfolding o by (rule unrecognized_events)
  next
    show "fst (HandleConnection_loop env conn final scope ((MsgNum_unrecognized b, payload) # rest) w)
        = Return (Some (errorString (''Unrecognized incoming message: ''
                                     @ fmt_d env (MsgNum_unrecognized b))))"
      unfolding other [OF unknown] by (rule unrecognized_events)
    show "new_events w
        (snd (HandleConnection_loop env conn final scope ((MsgNum_unrecognized b, payload) # rest) w))
       = [Wrote conn MsgNum_AGENT_FAILURE empty_payload]"
      unfolding other [OF unknown] by (rule unrecognized_events)
  qed
qed

theorem extension_and_unrecognized_messages_witness:
  "ExtensionType (Unmarshal_extension env0 [1]) = AgentGuardExtensionType env0
   \<and> HandleConnection_loop env0 Conn io_EOF scope0 [(MsgNum_AGENTC_EXTENSION, [1])] w0
       = (Return None, \<lparr>events = [Wrote Conn MsgNum_AGENT_SUCCESS empty_payload], wscript = []\<rparr>)
   \<and> ExtensionType (Unmarshal_extension env0 [2]) \<noteq> AgentGuardExtensionType env0
   \<and> HandleConnection_loop env0 Conn io_EOF scope0
        [(MsgNum_AGENTC_EXTENSION, [2]), (MsgNum_AGENTC_EXTENSION, [1])] w0
       = (Return (Some (errorString ''Unrecognized incoming message: ?'')),
          \<lparr>events = [Wrote Conn MsgNum_AGENT_FAILURE empty_payload], wscript = []\<rparr>)
   \<and> HandleConnection_loop env0 Conn io_EOF scope0
        [(MsgNum_unrecognized 254, []), (MsgNum_AGENTC_EXTENSION, [1])] w0
       = (Return (Some (errorString ''Unrecognized incoming message: ?'')),
          \<lparr>events = [Wrote Conn MsgNum_AGENT_FAILURE empty_payload], wscript = []\<rparr>)
   \<and> MsgNum_EXECUTION_DENIED \<noteq> MsgNum_AGENT_FORWARDING_NOTICE
   \<and> MsgNum_EXECUTION_DENIED \<noteq> MsgNum_EXECUTION_REQUEST
   \<and> MsgNum_EXECUTION_DENIED \<noteq> MsgNum_CREDENTIAL_REQUEST
   \<and> MsgNum_EXECUTION_DENIED \<noteq> MsgNum_AGENTC_EXTENSION
   \<and> fst (HandleConnection_loop env0 Conn io_EOF scope0 [(MsgNum_EXECUTION_DENIED, [])] w0)
       = Return (Some (errorString ''Unrecognized incoming message: ?''))"
proof -
  have g: "ExtensionType (Unmarshal_extension env0 [1]) = AgentGuardExtensionType env0"
    "ExtensionType (Unmarshal_extension env0 [2]) \<noteq> AgentGuardExtensionType env0"
    "fmt_d env0 m = ''?''" for m
    by (simp_all add: env0_def)
  have ev: "HandleConnection_loop env0 Conn io_EOF scope0 [(MsgNum_AGENTC_EXTENSION, [1])] w0
       = (Return None, \<lparr>events = [Wrote Conn MsgNum_AGENT_SUCCESS empty_payload], wscript = []\<rparr>)"
    "HandleConnection_loop env0 Conn io_EOF scope0
        [(MsgNum_AGENTC_EXTENSION, [2]), (MsgNum_AGENTC_EXTENSION, [1])] w0
       = (Return (Some (errorString ''Unrecognized incoming message: ?'')),
          \<lparr>events = [Wrote Conn MsgNum_AGENT_FAILURE empty_payload], wscript = []\<rparr>)"
    "HandleConnection_loop env0 Conn io_EOF scope0
        [(MsgNum_unrecognized 254, []), (MsgNum_AGENTC_EXTENSION, [1])] w0
       = (Return (Some (errorString ''Unrecognized incoming message: ?'')),
          \<lparr>events = [Wrote Conn MsgNum_AGENT_FAILURE empty_payload], wscript = []\<rparr>)"
    by (simp_all add: g unrecognized_def WriteControlPacket_def w0_def emit_def)
  from g ev
    extension_and_unrecognized_messages
      [where env = env0 and payload = "[1]" and conn = Conn and final = io_EOF and scope = scope0
         and rest = "[]" and w = w0 and msgNum = MsgNum_EXECUTION_DENIED and b = 254]
    extension_and_unrecognized_messages
      [where env = env0 and payload = "[2]" and conn = Conn and final = io_EOF and scope = scope0
         and rest = "[(MsgNum_AGENTC_EXTENSION, [1])]" and w = w0
         and msgNum = MsgNum_EXECUTION_DENIED and b = 254]
    extension_and_unrecognized_messages
      [where env = env0 and payload = "[]" and conn = Conn and final = io_EOF and scope = scope0
         and rest = "[]" and w = w0 and msgNum = MsgNum_EXECUTION_DENIED and b = 254]
  show ?thesis by simp
qed

text \<open>
  Claim C9. When the connection yields EOF at the boundary of a control packet,
  \<^verbatim>\<open>ReadControlPacket\<close> reports \<^verbatim>\<open>io.EOF\<close> and \<^verbatim>\<open>HandleConnection\<close> returns no error,
  in the fresh state and with any scope recorded so far, and does nothing more. When the
  connection ends inside a control packet (inside the header, or before the announced
  payload is complete), \<^verbatim>\<open>ReadControlPacket\<close> reports a framing error and
  \<^verbatim>\<open>HandleConnection\<close> returns that error, wrapped.
\<close>

theorem EOF_at_boundary_and_inside_packet:
  "fst (ReadControlPacket max_payload decode []) = Inl io_EOF
   \<and> HandleConnection_loop env conn io_EOF scope [] w = (Return None, w)
   \<and> HandleConnection env conn io_EOF [] w
       = (Return None, emit (Inform ''New incoming connection'') w)
   \<and> (bs \<noteq> [] \<and> (length bs < 5 \<or> length bs < 5 + be32 (take 4 (tl bs))) \<longrightarrow>
        (\<exists>err. fst (ReadControlPacket max_payload decode bs) = Inl err
           \<and> err \<noteq> io_EOF \<and> err \<noteq> io_ErrClosedPipe
           \<and> HandleConnection_loop env conn err scope [] w
               = (Return (Some (Errorf ''Failed to read control packet: '' err)), w)))"
proof (intro conjI impI)
  show "fst (ReadControlPacket max_payload decode []) = Inl io_EOF"
    by (simp add: ReadControlPacket_def)
  show "HandleConnection_loop env conn io_EOF scope [] w = (Return None, w)"
    by simp
  show "HandleConnection env conn io_EOF [] w
       = (Return None, emit (Inform ''New incoming connection'') w)"
    by (simp add: HandleConnection_def)
next
  assume a: "bs \<noteq> [] \<and> (length bs < 5 \<or> length bs < 5 + be32 (take 4 (tl bs)))"
  then obtain n rest where bs: "bs = n # rest" by (cases bs) auto
  have "\<exists>s. fst (ReadControlPacket max_payload decode bs) = Inl (errorString s)"
  proof (cases "length rest < 4")
    case True
    with bs show ?thesis by (simp add: ReadControlPacket_def)
  next
    case False
    with a bs have "length (drop 4 rest) < be32 (take 4 rest)" by auto
    with False bs show ?thesis by (simp add: ReadControlPacket_def Let_def)
  qed
  then obtain s where "fst (ReadControlPacket max_payload decode bs) = Inl (errorString s)"
    by blast
  then show "\<exists>err. fst (ReadControlPacket max_payload decode bs) = Inl err
           \<and> err \<noteq> io_EOF \<and> err \<noteq> io_ErrClosedPipe
           \<and> HandleConnection_loop env conn err scope [] w
               = (Return (Some (Errorf ''Failed to read control packet: '' err)), w)"
    by (intro exI [of _ "errorString s"]) simp
qed

theorem EOF_at_boundary_and_inside_packet_witness:
  "[1, 0, 0] \<noteq> ([] :: bytes) \<and> length ([1, 0, 0] :: bytes) < 5
   \<and> fst (ReadControlPacket 1024 MsgNum_unrecognized [1, 0, 0]) = Inl (errorString ''short read'')
   \<and> HandleConnection_loop env0 Conn (errorString ''short read'') scope0 [] w0
       = (Return (Some (errorString ''Failed to read control packet: short read'')), w0)
   \<and> fst (ReadControlPacket 1024 MsgNum_unrecognized [1, 0, 0, 0, 2, 7])
       = Inl (errorString ''short read'')
   \<and> fst (ReadControlPacket 1024 MsgNum_unrecognized [1, 0, 0, 0, 2, 7, 8])
       = Inr (MsgNum_unrecognized 1, [7, 8])
   \<and> HandleConnection_loop env0 Conn io_EOF scope0 [] w0 = (Return None, w0)"
proof -
  have a: "fst (ReadControlPacket 1024 MsgNum_unrecognized [1, 0, 0]) = Inl (errorString ''short read'')"
    "fst (ReadControlPacket 1024 MsgNum_unrecognized [1, 0, 0, 0, 2, 7])
       = Inl (errorString ''short read'')"
    "fst (ReadControlPacket 1024 MsgNum_unrecognized [1, 0, 0, 0, 2, 7, 8])
       = Inr (MsgNum_unrecognized 1, [7, 8])"
    by (simp_all add: ReadControlPacket_def be32_def Let_def)
  from a
    EOF_at_boundary_and_inside_packet
      [where bs = "[1, 0, 0]" and max_payload = 1024 and decode = MsgNum_unrecognized
         and env = env0 and conn = Conn and scope = scope0 and w = w0]
  show ?thesis by (simp add: Errorf_def)
qed

end
